theory Spec2Isabelle
  imports Main "HOL-Library.Multiset" "HOL-Library.Char_ord" "HOL-Library.List_Lexorder"
begin

section \<open>Data model\<close>

text \<open>
  The four tables of the inspection service. A row is a record; the fields keep the
  column names of the source, prefixed by the table they belong to (record fields share
  one name space). A \<open>Date\<close> is the number of milliseconds since the epoch, an id is a
  JavaScript number holding an integer. A nullable text column is a \<open>string option\<close>,
  \<open>None\<close> being \<open>null\<close>.
\<close>

record vehicle =
  v_id :: int
  v_make :: string
  v_model :: string
  v_year :: int
  v_vin :: string
  v_license_plate :: string
  v_created_at :: int
  v_updated_at :: int

record inspector =
  i_id :: int
  i_name :: string
  i_employee_id :: string
  i_created_at :: int
  i_updated_at :: int

record inspection =
  n_id :: int
  n_vehicle_id :: int
  n_inspector_id :: int
  n_inspection_date :: int
  n_completed :: bool
  n_notes :: "string option"
  n_created_at :: int
  n_updated_at :: int

datatype item_status = Pass | Fail | Not_applicable

record inspection_item =
  t_id :: int
  t_inspection_id :: int
  t_item_name :: string
  t_status :: item_status
  t_comments :: "string option"
  t_created_at :: int
  t_updated_at :: int

text \<open>
  The persisted state: each table is the list of its rows in storage order, next to the
  value its serial id column hands out next.
\<close>

record db =
  vehiclesTable :: "vehicle list"
  inspectorsTable :: "inspector list"
  inspectionsTable :: "inspection list"
  inspectionItemsTable :: "inspection_item list"
  vehicles_seq :: int
  inspectors_seq :: int
  inspections_seq :: int
  inspection_items_seq :: int

text \<open>
  A handler throws \<open>new Error(message)\<close>; the storage layer raises an error of its own
  when a statement violates a unique constraint.
\<close>

datatype error = Error string | UniqueViolation

section \<open>Template literals\<close>

text \<open>\<open>`${n}`\<close> for an integer-valued number: its decimal digits, with a sign when negative.\<close>

definition digit :: "nat \<Rightarrow> char" where
  "digit n = ''0123456789'' ! (n mod 10)"

function digits :: "nat \<Rightarrow> string" where
  "digits n = (if n < 10 then [digit n] else digits (n div 10) @ [digit n])"
  by pat_completeness auto
termination
  by (relation "measure (\<lambda>n. n)") auto

declare digits.simps [simp del]

definition show_number :: "int \<Rightarrow> string" where
  "show_number i = (if i < 0 then CHR ''-'' # digits (nat (- i)) else digits (nat i))"

section \<open>Storage statements\<close>

text \<open>
  The table declarations are not among the sources. According to the specification the
  columns \<open>vin\<close>, \<open>license_plate\<close> and \<open>employee_id\<close> carry a unique constraint at the
  storage layer. The flag \<open>uq\<close> of the statements below says whether the storage enforces
  it: a statement whose written rows would then share a key with another row of the
  table fails as a whole and writes nothing.
\<close>

definition unique_ok :: "('r \<Rightarrow> string) \<Rightarrow> 'r list \<Rightarrow> 'r list \<Rightarrow> bool" where
  "unique_ok key written table =
     list_all (\<lambda>w. length (filter (\<lambda>q. key q = key w) table) \<le> 1) written"

definition insert_vehicle ::
  "bool \<Rightarrow> int \<Rightarrow> string \<Rightarrow> string \<Rightarrow> int \<Rightarrow> string \<Rightarrow> string \<Rightarrow> db \<Rightarrow> (error + vehicle) \<times> db" where
  "insert_vehicle uq now a_make a_model a_year a_vin a_license_plate s =
     (let row = \<lparr>v_id = vehicles_seq s, v_make = a_make, v_model = a_model, v_year = a_year,
                 v_vin = a_vin, v_license_plate = a_license_plate,
                 v_created_at = now, v_updated_at = now\<rparr>;
          table = vehiclesTable s @ [row]
      in if uq \<and> \<not> (unique_ok v_vin [row] table \<and> unique_ok v_license_plate [row] table)
         then (Inl UniqueViolation, s)
         else (Inr row, s\<lparr>vehiclesTable := table, vehicles_seq := vehicles_seq s + 1\<rparr>))"

text \<open>
  \<open>db.update(vehiclesTable).set(updateData).where(eq(id, ...)).returning()\<close>: the rows
  with the id are replaced in place; the statement returns the new rows.
\<close>

definition update_vehicles ::
  "bool \<Rightarrow> int \<Rightarrow> (vehicle \<Rightarrow> vehicle) \<Rightarrow> db \<Rightarrow> (error + vehicle list) \<times> db" where
  "update_vehicles uq ident set_data s =
     (let table = map (\<lambda>r. if v_id r = ident then set_data r else r) (vehiclesTable s);
          returning = map set_data (filter (\<lambda>r. v_id r = ident) (vehiclesTable s))
      in if uq \<and> \<not> (unique_ok v_vin returning table \<and> unique_ok v_license_plate returning table)
         then (Inl UniqueViolation, s)
         else (Inr returning, s\<lparr>vehiclesTable := table\<rparr>))"

section \<open>Vehicle handlers\<close>

record create_vehicle_input =
  cv_make :: string
  cv_model :: string
  cv_year :: int
  cv_vin :: string
  cv_license_plate :: string

text \<open>The two checks on \<open>existingVehicles[0]\<close>, in the order of the source.\<close>

definition create_vehicle_conflict :: "create_vehicle_input \<Rightarrow> vehicle list \<Rightarrow> error option" where
  "create_vehicle_conflict input existingVehicles =
     (case existingVehicles of
        [] \<Rightarrow> None
      | existingVehicle # _ \<Rightarrow>
          if v_vin existingVehicle = cv_vin input
          then Some (Error (''Vehicle with VIN '' @ cv_vin input @ '' already exists''))
          else if v_license_plate existingVehicle = cv_license_plate input
          then Some (Error (''Vehicle with license plate '' @ cv_license_plate input
                             @ '' already exists''))
          else None)"

definition createVehicle ::
  "bool \<Rightarrow> int \<Rightarrow> create_vehicle_input \<Rightarrow> db \<Rightarrow> (error + vehicle) \<times> db" where
  "createVehicle uq now input s =
     (let existingVehicles =
            filter (\<lambda>r. v_vin r = cv_vin input \<or> v_license_plate r = cv_license_plate input)
              (vehiclesTable s)
      in case create_vehicle_conflict input existingVehicles of
           Some e \<Rightarrow> (Inl e, s)
         | None \<Rightarrow>
             insert_vehicle uq now (cv_make input) (cv_model input) (cv_year input)
               (cv_vin input) (cv_license_plate input) s)"

text \<open>
  The patch of \<open>updateVehicle\<close>: an absent field is \<open>None\<close>. \<open>truthy\<close> is the test
  \<open>if (input.vin)\<close>: the field is present and not the empty string.
\<close>

record update_vehicle_input =
  uv_id :: int
  uv_make :: "string option"
  uv_model :: "string option"
  uv_year :: "int option"
  uv_vin :: "string option"
  uv_license_plate :: "string option"

definition truthy :: "string option \<Rightarrow> bool" where
  "truthy x = (case x of None \<Rightarrow> False | Some v \<Rightarrow> v \<noteq> [])"

datatype vehicle_condition = Eq_vin string | Eq_license_plate string

fun holds :: "vehicle_condition \<Rightarrow> vehicle \<Rightarrow> bool" where
  "holds (Eq_vin x) r = (v_vin r = x)"
| "holds (Eq_license_plate x) r = (v_license_plate r = x)"

definition uniquenessConditions :: "update_vehicle_input \<Rightarrow> vehicle_condition list" where
  "uniquenessConditions input =
     (case uv_vin input of
        None \<Rightarrow> []
      | Some vin \<Rightarrow> if vin \<noteq> [] then [Eq_vin vin] else [])
     @ (case uv_license_plate input of
        None \<Rightarrow> []
      | Some license_plate \<Rightarrow> if license_plate \<noteq> [] then [Eq_license_plate license_plate] else [])"

text \<open>
  The conflict query: \<open>and(ne(id, input.id), ...uniquenessConditions)\<close>, every condition
  of the list has to hold of a row. Where a message is built, the value of the first
  conflicting row is the value of the input: the test before it says so.
\<close>

definition update_vehicle_conflicts :: "update_vehicle_input \<Rightarrow> db \<Rightarrow> vehicle list" where
  "update_vehicle_conflicts input s =
     filter (\<lambda>r. v_id r \<noteq> uv_id input \<and> list_all (\<lambda>c. holds c r) (uniquenessConditions input))
       (vehiclesTable s)"

definition update_vehicle_conflict :: "update_vehicle_input \<Rightarrow> db \<Rightarrow> error option" where
  "update_vehicle_conflict input s =
     (if length (uniquenessConditions input) > 0 then
        (case update_vehicle_conflicts input s of
           [] \<Rightarrow> None
         | conflict # _ \<Rightarrow>
             if truthy (uv_vin input) \<and> Some (v_vin conflict) = uv_vin input
             then Some (Error (''VIN '' @ v_vin conflict @ '' is already in use by another vehicle''))
             else if truthy (uv_license_plate input)
                     \<and> Some (v_license_plate conflict) = uv_license_plate input
             then Some (Error (''License plate '' @ v_license_plate conflict
                                @ '' is already in use by another vehicle''))
             else None)
      else None)"

definition vehicle_updateData :: "int \<Rightarrow> update_vehicle_input \<Rightarrow> vehicle \<Rightarrow> vehicle" where
  "vehicle_updateData now input r =
     r\<lparr>v_updated_at := now,
       v_make := (case uv_make input of None \<Rightarrow> v_make r | Some x \<Rightarrow> x),
       v_model := (case uv_model input of None \<Rightarrow> v_model r | Some x \<Rightarrow> x),
       v_year := (case uv_year input of None \<Rightarrow> v_year r | Some x \<Rightarrow> x),
       v_vin := (case uv_vin input of None \<Rightarrow> v_vin r | Some x \<Rightarrow> x),
       v_license_plate := (case uv_license_plate input of None \<Rightarrow> v_license_plate r | Some x \<Rightarrow> x)\<rparr>"

text \<open>
  \<open>updateVehicle\<close> returns \<open>result[0]\<close> without a length check: \<open>None\<close> is the
  \<open>undefined\<close> of an empty result.
\<close>

definition updateVehicle ::
  "bool \<Rightarrow> int \<Rightarrow> update_vehicle_input \<Rightarrow> db \<Rightarrow> (error + vehicle option) \<times> db" where
  "updateVehicle uq now input s =
     (let existingVehicles = filter (\<lambda>r. v_id r = uv_id input) (vehiclesTable s)
      in if length existingVehicles = 0
         then (Inl (Error (''Vehicle with id '' @ show_number (uv_id input) @ '' not found'')), s)
         else
           (case update_vehicle_conflict input s of
              Some e \<Rightarrow> (Inl e, s)
            | None \<Rightarrow>
                (case update_vehicles uq (uv_id input) (vehicle_updateData now input) s of
                   (Inl e, s') \<Rightarrow> (Inl e, s')
                 | (Inr result, s') \<Rightarrow>
                     (case result of [] \<Rightarrow> (Inr None, s') | r # _ \<Rightarrow> (Inr (Some r), s')))))"

text \<open>
  Deleting a vehicle relies on the cascading foreign keys: the inspections of the vehicle
  go with it, and the items of those inspections.
\<close>

definition delete_vehicles :: "int \<Rightarrow> db \<Rightarrow> db" where
  "delete_vehicles ident s =
     (let gone = map n_id (filter (\<lambda>n. n_vehicle_id n = ident) (inspectionsTable s))
      in s\<lparr>vehiclesTable := filter (\<lambda>r. v_id r \<noteq> ident) (vehiclesTable s),
            inspectionsTable := filter (\<lambda>n. n_vehicle_id n \<noteq> ident) (inspectionsTable s),
            inspectionItemsTable :=
              filter (\<lambda>t. t_inspection_id t \<notin> set gone) (inspectionItemsTable s)\<rparr>)"

definition deleteVehicle :: "int \<Rightarrow> db \<Rightarrow> (error + bool) \<times> db" where
  "deleteVehicle ident s =
     (let existingVehicle = take 1 (filter (\<lambda>r. v_id r = ident) (vehiclesTable s))
      in if length existingVehicle = 0
         then (Inl (Error (''Vehicle with ID '' @ show_number ident @ '' not found'')), s)
         else (Inr True, delete_vehicles ident s))"

definition getVehicles :: "db \<Rightarrow> vehicle list" where
  "getVehicles s = sort_key (\<lambda>r. - v_created_at r) (vehiclesTable s)"

definition getVehicleById :: "int \<Rightarrow> db \<Rightarrow> vehicle option" where
  "getVehicleById ident s =
     (case filter (\<lambda>r. v_id r = ident) (vehiclesTable s) of [] \<Rightarrow> None | r # _ \<Rightarrow> Some r)"

section \<open>Inspector handlers\<close>

definition insert_inspector ::
  "bool \<Rightarrow> int \<Rightarrow> string \<Rightarrow> string \<Rightarrow> db \<Rightarrow> (error + inspector) \<times> db" where
  "insert_inspector uq now a_name a_employee_id s =
     (let row = \<lparr>i_id = inspectors_seq s, i_name = a_name, i_employee_id = a_employee_id,
                 i_created_at = now, i_updated_at = now\<rparr>;
          table = inspectorsTable s @ [row]
      in if uq \<and> \<not> unique_ok i_employee_id [row] table
         then (Inl UniqueViolation, s)
         else (Inr row, s\<lparr>inspectorsTable := table, inspectors_seq := inspectors_seq s + 1\<rparr>))"

definition update_inspectors ::
  "bool \<Rightarrow> int \<Rightarrow> (inspector \<Rightarrow> inspector) \<Rightarrow> db \<Rightarrow> (error + inspector list) \<times> db" where
  "update_inspectors uq ident set_data s =
     (let table = map (\<lambda>r. if i_id r = ident then set_data r else r) (inspectorsTable s);
          returning = map set_data (filter (\<lambda>r. i_id r = ident) (inspectorsTable s))
      in if uq \<and> \<not> unique_ok i_employee_id returning table
         then (Inl UniqueViolation, s)
         else (Inr returning, s\<lparr>inspectorsTable := table\<rparr>))"

record create_inspector_input =
  cp_name :: string
  cp_employee_id :: string

definition createInspector ::
  "bool \<Rightarrow> int \<Rightarrow> create_inspector_input \<Rightarrow> db \<Rightarrow> (error + inspector) \<times> db" where
  "createInspector uq now input s =
     (let existingInspector =
            filter (\<lambda>r. i_employee_id r = cp_employee_id input) (inspectorsTable s)
      in if length existingInspector > 0
         then (Inl (Error (''Inspector with employee_id \"'' @ cp_employee_id input
                            @ ''\" already exists'')), s)
         else insert_inspector uq now (cp_name input) (cp_employee_id input) s)"

record update_inspector_input =
  up_id :: int
  up_name :: "string option"
  up_employee_id :: "string option"

definition inspector_updateData :: "int \<Rightarrow> update_inspector_input \<Rightarrow> inspector \<Rightarrow> inspector" where
  "inspector_updateData now input r =
     r\<lparr>i_updated_at := now,
       i_name := (case up_name input of None \<Rightarrow> i_name r | Some x \<Rightarrow> x),
       i_employee_id := (case up_employee_id input of None \<Rightarrow> i_employee_id r | Some x \<Rightarrow> x)\<rparr>"

definition update_inspector_conflict :: "update_inspector_input \<Rightarrow> db \<Rightarrow> error option" where
  "update_inspector_conflict input s =
     (case up_employee_id input of
        None \<Rightarrow> None
      | Some employee_id \<Rightarrow>
          if employee_id \<noteq> [] then
            (let duplicateCheck =
                   filter (\<lambda>r. i_employee_id r = employee_id \<and> i_id r \<noteq> up_id input)
                     (inspectorsTable s)
             in if length duplicateCheck > 0
                then Some (Error (''Inspector with employee ID '' @ employee_id
                                   @ '' already exists''))
                else None)
          else None)"

definition updateInspector ::
  "bool \<Rightarrow> int \<Rightarrow> update_inspector_input \<Rightarrow> db \<Rightarrow> (error + inspector option) \<times> db" where
  "updateInspector uq now input s =
     (let existingInspector = filter (\<lambda>r. i_id r = up_id input) (inspectorsTable s)
      in if length existingInspector = 0
         then (Inl (Error (''Inspector with ID '' @ show_number (up_id input) @ '' not found'')), s)
         else
           (case update_inspector_conflict input s of
              Some e \<Rightarrow> (Inl e, s)
            | None \<Rightarrow>
                (case update_inspectors uq (up_id input) (inspector_updateData now input) s of
                   (Inl e, s') \<Rightarrow> (Inl e, s')
                 | (Inr result, s') \<Rightarrow>
                     (case result of [] \<Rightarrow> (Inr None, s') | r # _ \<Rightarrow> (Inr (Some r), s')))))"

text \<open>
  \<open>deleteInspector\<close>: the count in the message is \<open>associatedInspections.length\<close>. The
  handler's own check comes before the delete statement, so the foreign key of the
  inspections (which has no cascade) never gets to refuse it.
\<close>

definition deleteInspector :: "int \<Rightarrow> db \<Rightarrow> (error + bool) \<times> db" where
  "deleteInspector ident s =
     (let existingInspector = filter (\<lambda>r. i_id r = ident) (inspectorsTable s)
      in if length existingInspector = 0
         then (Inl (Error (''Inspector with id '' @ show_number ident @ '' not found'')), s)
         else
           (let associatedInspections =
                  filter (\<lambda>n. n_inspector_id n = ident) (inspectionsTable s)
            in if length associatedInspections > 0
               then (Inl (Error (''Cannot delete inspector with id '' @ show_number ident
                                  @ '' because they have ''
                                  @ show_number (int (length associatedInspections))
                                  @ '' associated inspection(s)'')), s)
               else (Inr True,
                     s\<lparr>inspectorsTable := filter (\<lambda>r. i_id r \<noteq> ident) (inspectorsTable s)\<rparr>)))"

text \<open>
  \<open>orderBy(asc(name))\<close> compares names as the collation of the storage does, which is
  configuration and not code: \<open>collate\<close> maps a name to its sort key.
\<close>

definition getInspectors :: "(string \<Rightarrow> 'k::linorder) \<Rightarrow> db \<Rightarrow> inspector list" where
  "getInspectors collate s = sort_key (\<lambda>r. collate (i_name r)) (inspectorsTable s)"

section \<open>Inspection handlers\<close>

text \<open>
  An optional, nullable input field (\<open>notes\<close>, \<open>comments\<close>) is \<open>undefined\<close>, \<open>null\<close> or
  a string. \<open>or_null\<close> is the defaulting \<open>x || null\<close> of the create handlers: every falsy
  value, the empty string among them, gives \<open>null\<close>.
\<close>

datatype 'a nullable_field = Undefined | Null | Given 'a

definition or_null :: "string nullable_field \<Rightarrow> string option" where
  "or_null x = (case x of Undefined \<Rightarrow> None | Null \<Rightarrow> None
                | Given v \<Rightarrow> if v = [] then None else Some v)"

definition insert_inspection ::
  "int \<Rightarrow> int \<Rightarrow> int \<Rightarrow> int \<Rightarrow> bool \<Rightarrow> string option \<Rightarrow> db \<Rightarrow> inspection \<times> db" where
  "insert_inspection now a_vehicle_id a_inspector_id a_inspection_date a_completed a_notes s =
     (let row = \<lparr>n_id = inspections_seq s, n_vehicle_id = a_vehicle_id,
                 n_inspector_id = a_inspector_id, n_inspection_date = a_inspection_date,
                 n_completed = a_completed, n_notes = a_notes,
                 n_created_at = now, n_updated_at = now\<rparr>
      in (row, s\<lparr>inspectionsTable := inspectionsTable s @ [row],
                 inspections_seq := inspections_seq s + 1\<rparr>))"

definition update_inspections ::
  "int \<Rightarrow> (inspection \<Rightarrow> inspection) \<Rightarrow> db \<Rightarrow> inspection list \<times> db" where
  "update_inspections ident set_data s =
     (map set_data (filter (\<lambda>r. n_id r = ident) (inspectionsTable s)),
      s\<lparr>inspectionsTable :=
          map (\<lambda>r. if n_id r = ident then set_data r else r) (inspectionsTable s)\<rparr>)"

record create_inspection_input =
  ci_vehicle_id :: int
  ci_inspector_id :: int
  ci_inspection_date :: int
  ci_notes :: "string nullable_field"

definition createInspection ::
  "int \<Rightarrow> 'a create_inspection_input_scheme \<Rightarrow> db \<Rightarrow> (error + inspection) \<times> db" where
  "createInspection now input s =
     (let vehicle = filter (\<lambda>r. v_id r = ci_vehicle_id input) (vehiclesTable s)
      in if length vehicle = 0
         then (Inl (Error (''Vehicle with id '' @ show_number (ci_vehicle_id input)
                            @ '' does not exist'')), s)
         else
           (let inspector = filter (\<lambda>r. i_id r = ci_inspector_id input) (inspectorsTable s)
            in if length inspector = 0
               then (Inl (Error (''Inspector with id '' @ show_number (ci_inspector_id input)
                                  @ '' does not exist'')), s)
               else
                 (case insert_inspection now (ci_vehicle_id input) (ci_inspector_id input)
                         (ci_inspection_date input) False (or_null (ci_notes input)) s of
                    (row, s') \<Rightarrow> (Inr row, s'))))"

record update_inspection_input =
  ui_id :: int
  ui_completed :: "bool option"
  ui_notes :: "string nullable_field"

definition inspection_updateData :: "int \<Rightarrow> update_inspection_input \<Rightarrow> inspection \<Rightarrow> inspection" where
  "inspection_updateData now input r =
     r\<lparr>n_updated_at := now,
       n_completed := (case ui_completed input of None \<Rightarrow> n_completed r | Some x \<Rightarrow> x),
       n_notes := (case ui_notes input of Undefined \<Rightarrow> n_notes r | Null \<Rightarrow> None
                   | Given x \<Rightarrow> Some x)\<rparr>"

text \<open>The update statement runs first; the not-found test looks at what it returned.\<close>

definition updateInspection ::
  "int \<Rightarrow> update_inspection_input \<Rightarrow> db \<Rightarrow> (error + inspection) \<times> db" where
  "updateInspection now input s =
     (case update_inspections (ui_id input) (inspection_updateData now input) s of
        (result, s') \<Rightarrow>
          (case result of
             [] \<Rightarrow> (Inl (Error (''Inspection with id '' @ show_number (ui_id input)
                                 @ '' not found'')), s')
           | r # _ \<Rightarrow> (Inr r, s')))"

definition getInspections :: "db \<Rightarrow> inspection list" where
  "getInspections s = sort_key (\<lambda>r. - n_inspection_date r) (inspectionsTable s)"

section \<open>Inspection item handlers\<close>

record item_input =
  it_item_name :: string
  it_status :: item_status
  it_comments :: "string nullable_field"

record create_inspection_items_input =
  cs_inspection_id :: int
  cs_items :: "item_input list"

text \<open>The values of the bulk insert, before the storage adds ids and timestamps.\<close>

record item_values =
  iv_inspection_id :: int
  iv_item_name :: string
  iv_status :: item_status
  iv_comments :: "string option"

definition itemsToInsert :: "create_inspection_items_input \<Rightarrow> item_values list" where
  "itemsToInsert input =
     map (\<lambda>item. \<lparr>iv_inspection_id = cs_inspection_id input, iv_item_name = it_item_name item,
                   iv_status = it_status item, iv_comments = or_null (it_comments item)\<rparr>)
       (cs_items input)"

text \<open>One statement inserts all the rows; the serial column numbers them in order.\<close>

definition insert_inspection_items ::
  "int \<Rightarrow> item_values list \<Rightarrow> db \<Rightarrow> inspection_item list \<times> db" where
  "insert_inspection_items now vals s =
     (let rows = map (\<lambda>(k, v). \<lparr>t_id = inspection_items_seq s + int k,
                                 t_inspection_id = iv_inspection_id v,
                                 t_item_name = iv_item_name v, t_status = iv_status v,
                                 t_comments = iv_comments v,
                                 t_created_at = now, t_updated_at = now\<rparr>)
                  (enumerate 0 vals)
      in (rows, s\<lparr>inspectionItemsTable := inspectionItemsTable s @ rows,
                  inspection_items_seq := inspection_items_seq s + int (length vals)\<rparr>))"

definition createInspectionItems ::
  "int \<Rightarrow> create_inspection_items_input \<Rightarrow> db \<Rightarrow> (error + inspection_item list) \<times> db" where
  "createInspectionItems now input s =
     (let inspection = filter (\<lambda>r. n_id r = cs_inspection_id input) (inspectionsTable s)
      in if length inspection = 0
         then (Inl (Error (''Inspection with id '' @ show_number (cs_inspection_id input)
                            @ '' not found'')), s)
         else if length (cs_items input) = 0 then (Inr [], s)
         else (case insert_inspection_items now (itemsToInsert input) s of
                 (result, s') \<Rightarrow> (Inr result, s')))"

definition update_inspection_items ::
  "int \<Rightarrow> (inspection_item \<Rightarrow> inspection_item) \<Rightarrow> db \<Rightarrow> inspection_item list \<times> db" where
  "update_inspection_items ident set_data s =
     (map set_data (filter (\<lambda>r. t_id r = ident) (inspectionItemsTable s)),
      s\<lparr>inspectionItemsTable :=
          map (\<lambda>r. if t_id r = ident then set_data r else r) (inspectionItemsTable s)\<rparr>)"

record update_inspection_item_input =
  ut_id :: int
  ut_status :: "item_status option"
  ut_comments :: "string nullable_field"

definition item_updateData ::
  "int \<Rightarrow> update_inspection_item_input \<Rightarrow> inspection_item \<Rightarrow> inspection_item" where
  "item_updateData now input r =
     r\<lparr>t_updated_at := now,
       t_status := (case ut_status input of None \<Rightarrow> t_status r | Some x \<Rightarrow> x),
       t_comments := (case ut_comments input of Undefined \<Rightarrow> t_comments r | Null \<Rightarrow> None
                      | Given x \<Rightarrow> Some x)\<rparr>"

definition updateInspectionItem ::
  "int \<Rightarrow> update_inspection_item_input \<Rightarrow> db \<Rightarrow> (error + inspection_item) \<times> db" where
  "updateInspectionItem now input s =
     (case update_inspection_items (ut_id input) (item_updateData now input) s of
        (result, s') \<Rightarrow>
          (case result of
             [] \<Rightarrow> (Inl (Error (''Inspection item with id '' @ show_number (ut_id input)
                                 @ '' not found'')), s')
           | r # _ \<Rightarrow> (Inr r, s')))"

section \<open>Reporting\<close>

record inspection_with_details =
  d_id :: int
  d_vehicle_id :: int
  d_inspector_id :: int
  d_inspection_date :: int
  d_completed :: bool
  d_notes :: "string option"
  d_created_at :: int
  d_updated_at :: int
  d_vehicle :: vehicle
  d_inspector :: inspector
  d_items :: "inspection_item list"

record inspection_report =
  total_inspections :: int
  completed_inspections :: int
  pending_inspections :: int
  recent_inspections :: "inspection_with_details list"

text \<open>
  The two inner joins of the report: an inspection is paired with every vehicle row
  and every inspector row that carry the ids it refers to.
\<close>

definition inspections_joined :: "db \<Rightarrow> (inspection \<times> vehicle \<times> inspector) list" where
  "inspections_joined s =
     concat (map (\<lambda>n.
       concat (map (\<lambda>v.
         map (\<lambda>i. (n, v, i)) (filter (\<lambda>i. n_inspector_id n = i_id i) (inspectorsTable s)))
         (filter (\<lambda>v. n_vehicle_id n = v_id v) (vehiclesTable s))))
       (inspectionsTable s))"

definition with_details :: "db \<Rightarrow> inspection \<times> vehicle \<times> inspector \<Rightarrow> inspection_with_details" where
  "with_details s result =
     (case result of (inspection, vehicle, inspector) \<Rightarrow>
        \<lparr>d_id = n_id inspection, d_vehicle_id = n_vehicle_id inspection,
         d_inspector_id = n_inspector_id inspection,
         d_inspection_date = n_inspection_date inspection,
         d_completed = n_completed inspection, d_notes = n_notes inspection,
         d_created_at = n_created_at inspection, d_updated_at = n_updated_at inspection,
         d_vehicle = vehicle, d_inspector = inspector,
         d_items = filter (\<lambda>t. t_inspection_id t = n_id inspection) (inspectionItemsTable s)\<rparr>)"

definition getInspectionReport :: "db \<Rightarrow> inspection_report" where
  "getInspectionReport s =
     (let total = int (length (inspectionsTable s));
          completed = int (length (filter (\<lambda>n. n_completed n = True) (inspectionsTable s)));
          recentInspectionsResults =
            take 10 (sort_key (\<lambda>(n, v, i). - n_created_at n) (inspections_joined s))
      in \<lparr>total_inspections = total, completed_inspections = completed,
          pending_inspections = total - completed,
          recent_inspections = map (with_details s) recentInspectionsResults\<rparr>)"

section \<open>The sparse patch, in the words of the specification\<close>

text \<open>
  What the specification asks of an update, field by field: a field the patch leaves
  out keeps the value of the old row \<open>r\<close>, a field the patch supplies (a \<open>null\<close> too,
  where the column is nullable) has the supplied value in the new row \<open>r'\<close>, the id and
  \<open>created_at\<close> stay, and \<open>updated_at\<close> is the clock reading \<open>now\<close> of the call.
\<close>

definition vehicle_patched :: "int \<Rightarrow> update_vehicle_input \<Rightarrow> vehicle \<Rightarrow> vehicle \<Rightarrow> bool" where
  "vehicle_patched now input r r' =
     (v_id r' = v_id r \<and> v_created_at r' = v_created_at r \<and> v_updated_at r' = now
      \<and> v_make r' = (case uv_make input of None \<Rightarrow> v_make r | Some x \<Rightarrow> x)
      \<and> v_model r' = (case uv_model input of None \<Rightarrow> v_model r | Some x \<Rightarrow> x)
      \<and> v_year r' = (case uv_year input of None \<Rightarrow> v_year r | Some x \<Rightarrow> x)
      \<and> v_vin r' = (case uv_vin input of None \<Rightarrow> v_vin r | Some x \<Rightarrow> x)
      \<and> v_license_plate r'
          = (case uv_license_plate input of None \<Rightarrow> v_license_plate r | Some x \<Rightarrow> x))"

definition inspector_patched ::
  "int \<Rightarrow> update_inspector_input \<Rightarrow> inspector \<Rightarrow> inspector \<Rightarrow> bool" where
  "inspector_patched now input r r' =
     (i_id r' = i_id r \<and> i_created_at r' = i_created_at r \<and> i_updated_at r' = now
      \<and> i_name r' = (case up_name input of None \<Rightarrow> i_name r | Some x \<Rightarrow> x)
      \<and> i_employee_id r'
          = (case up_employee_id input of None \<Rightarrow> i_employee_id r | Some x \<Rightarrow> x))"

definition inspection_patched ::
  "int \<Rightarrow> update_inspection_input \<Rightarrow> inspection \<Rightarrow> inspection \<Rightarrow> bool" where
  "inspection_patched now input r r' =
     (n_id r' = n_id r \<and> n_vehicle_id r' = n_vehicle_id r
      \<and> n_inspector_id r' = n_inspector_id r
      \<and> n_inspection_date r' = n_inspection_date r
      \<and> n_created_at r' = n_created_at r \<and> n_updated_at r' = now
      \<and> n_completed r' = (case ui_completed input of None \<Rightarrow> n_completed r | Some x \<Rightarrow> x)
      \<and> n_notes r' = (case ui_notes input of Undefined \<Rightarrow> n_notes r | Null \<Rightarrow> None
                       | Given x \<Rightarrow> Some x))"

definition item_patched ::
  "int \<Rightarrow> update_inspection_item_input \<Rightarrow> inspection_item \<Rightarrow> inspection_item \<Rightarrow> bool" where
  "item_patched now input r r' =
     (t_id r' = t_id r \<and> t_inspection_id r' = t_inspection_id r
      \<and> t_item_name r' = t_item_name r
      \<and> t_created_at r' = t_created_at r \<and> t_updated_at r' = now
      \<and> t_status r' = (case ut_status input of None \<Rightarrow> t_status r | Some x \<Rightarrow> x)
      \<and> t_comments r' = (case ut_comments input of Undefined \<Rightarrow> t_comments r | Null \<Rightarrow> None
                          | Given x \<Rightarrow> Some x))"

section \<open>Referential integrity\<close>

text \<open>
  What the primary and foreign keys of the storage keep true of the tables the report
  joins: vehicle ids and inspector ids are unique, and every inspection refers to a
  vehicle and to an inspector that exist.
\<close>

definition references_ok :: "db \<Rightarrow> bool" where
  "references_ok s =
     (distinct (map v_id (vehiclesTable s)) \<and> distinct (map i_id (inspectorsTable s))
      \<and> list_all (\<lambda>n. n_vehicle_id n \<in> set (map v_id (vehiclesTable s))
                       \<and> n_inspector_id n \<in> set (map i_id (inspectorsTable s)))
           (inspectionsTable s))"

text \<open>The inspection row inside an enriched inspection.\<close>

definition inspection_of :: "inspection_with_details \<Rightarrow> inspection" where
  "inspection_of d =
     \<lparr>n_id = d_id d, n_vehicle_id = d_vehicle_id d, n_inspector_id = d_inspector_id d,
      n_inspection_date = d_inspection_date d, n_completed = d_completed d,
      n_notes = d_notes d, n_created_at = d_created_at d, n_updated_at = d_updated_at d\<rparr>"

section \<open>An example database\<close>

definition car1 :: vehicle where
  "car1 = \<lparr>v_id = 1, v_make = ''Toyota'', v_model = ''Camry'', v_year = 2020,
            v_vin = ''1HGCM82633A111111'', v_license_plate = ''AAA111'',
            v_created_at = 1000, v_updated_at = 1000\<rparr>"

definition car2 :: vehicle where
  "car2 = \<lparr>v_id = 2, v_make = ''Honda'', v_model = ''Civic'', v_year = 2021,
            v_vin = ''1HGCM82633A222222'', v_license_plate = ''BBB222'',
            v_created_at = 2000, v_updated_at = 2000\<rparr>"

definition car3 :: vehicle where
  "car3 = \<lparr>v_id = 3, v_make = ''Ford'', v_model = ''Focus'', v_year = 2022,
            v_vin = ''1HGCM82633A333333'', v_license_plate = ''CCC333'',
            v_created_at = 3000, v_updated_at = 3000\<rparr>"

definition john :: inspector where
  "john = \<lparr>i_id = 1, i_name = ''John Smith'', i_employee_id = ''EMP001'',
            i_created_at = 1500, i_updated_at = 1500\<rparr>"

definition alice :: inspector where
  "alice = \<lparr>i_id = 2, i_name = ''Alice Jones'', i_employee_id = ''EMP002'',
             i_created_at = 2500, i_updated_at = 2500\<rparr>"

definition visit1 :: inspection where
  "visit1 = \<lparr>n_id = 1, n_vehicle_id = 1, n_inspector_id = 1, n_inspection_date = 10000,
              n_completed = True, n_notes = Some ''Initial inspection notes'',
              n_created_at = 4000, n_updated_at = 4000\<rparr>"

definition visit2 :: inspection where
  "visit2 = \<lparr>n_id = 2, n_vehicle_id = 2, n_inspector_id = 1, n_inspection_date = 20000,
              n_completed = False, n_notes = None,
              n_created_at = 5000, n_updated_at = 5000\<rparr>"

definition brakes :: inspection_item where
  "brakes = \<lparr>t_id = 1, t_inspection_id = 1, t_item_name = ''Brakes'', t_status = Pass,
              t_comments = Some ''Good condition'', t_created_at = 6000, t_updated_at = 6000\<rparr>"

definition depot :: db where
  "depot = \<lparr>vehiclesTable = [car1, car2, car3], inspectorsTable = [john, alice],
             inspectionsTable = [visit1, visit2], inspectionItemsTable = [brakes],
             vehicles_seq = 4, inspectors_seq = 3, inspections_seq = 3,
             inspection_items_seq = 2\<rparr>"

lemmas example_defs =
  depot_def car1_def car2_def car3_def john_def alice_def visit1_def visit2_def brakes_def

text \<open>
  \<open>createInspection\<close> reads four fields of its input and nothing else. An input that
  carries a \<open>completed\<close> of its own is an extension of the input record.
\<close>

record create_inspection_input_with_completed = create_inspection_input +
  ci_completed :: bool

text \<open>Reading a decimal numeral back: the number a string of digits stands for.\<close>

definition digit_value :: "char \<Rightarrow> nat" where
  "digit_value c = of_char c - 48"

definition decimal_value :: "string \<Rightarrow> nat" where
  "decimal_value cs = foldl (\<lambda>a c. 10 * a + digit_value c) 0 cs"

text \<open>
  The serial columns hand out ids above every id in use. Together with the referential
  integrity above this is what every handler keeps true once it holds, as it does in the
  database without rows.
\<close>

definition ids_below_seq :: "db \<Rightarrow> bool" where
  "ids_below_seq s =
     (list_all (\<lambda>r. v_id r < vehicles_seq s) (vehiclesTable s)
      \<and> list_all (\<lambda>r. i_id r < inspectors_seq s) (inspectorsTable s))"

definition consistent :: "db \<Rightarrow> bool" where
  "consistent s = (references_ok s \<and> ids_below_seq s)"

definition empty_db :: db where
  "empty_db = \<lparr>vehiclesTable = [], inspectorsTable = [], inspectionsTable = [],
                inspectionItemsTable = [], vehicles_seq = 1, inspectors_seq = 1,
                inspections_seq = 1, inspection_items_seq = 1\<rparr>"

section \<open>Selecting and rewriting rows\<close>

text \<open>
  Facts about the lists behind \<open>where\<close> clauses: a key that no row has selects nothing,
  a key that some row has selects something, and an update whose condition selects
  nothing leaves the table as it is.
\<close>

lemma key_filter_empty:
  "k \<notin> f ` set xs \<Longrightarrow> filter (\<lambda>q. f q = k) xs = []"
  by (induction xs) auto

lemma keys_filter_empty:
  "k \<notin> f ` set xs \<Longrightarrow> k' \<notin> g ` set xs
   \<Longrightarrow> filter (\<lambda>q. f q = k \<or> g q = k') xs = []"
  by (induction xs) auto

lemma key_filter_nonempty: "k \<in> f ` set xs \<Longrightarrow> filter (\<lambda>q. f q = k) xs \<noteq> []"
  by (induction xs) auto

lemma map_if_filter_empty:
  "filter P xs = [] \<Longrightarrow> map (\<lambda>r. if P r then f r else r) xs = xs"
  by (induction xs) (auto split: if_splits)

section \<open>Updating a vehicle\<close>

text \<open>
  C1. A patch for an existing vehicle whose new \<open>vin\<close> or new \<open>license_plate\<close> is held by
  another vehicle has to fail with the conflict error of the handler and change no row.
  The conflict query of \<open>updateVehicle\<close> joins its conditions with \<open>and\<close>, so it only finds
  a row that holds every supplied value at once. In the example database the patch for
  vehicle 3 takes the VIN of vehicle 1 and the plate of vehicle 2: the handler throws
  nothing. Where the storage does not enforce uniqueness, the row is rewritten and two
  vehicles share a VIN; where it does, the caller gets the storage's own error. The same
  happens, in both variants, when only the VIN collides and the plate is new.
\<close>

theorem updateVehicle_misses_split_collision:
  "updateVehicle False 9000
     \<lparr>uv_id = 3, uv_make = None, uv_model = None, uv_year = None,
      uv_vin = Some ''1HGCM82633A111111'', uv_license_plate = Some ''BBB222''\<rparr> depot
   = (Inr (Some (car3\<lparr>v_vin := ''1HGCM82633A111111'', v_license_plate := ''BBB222'',
                       v_updated_at := 9000\<rparr>)),
      depot\<lparr>vehiclesTable :=
        [car1, car2, car3\<lparr>v_vin := ''1HGCM82633A111111'', v_license_plate := ''BBB222'',
                           v_updated_at := 9000\<rparr>]\<rparr>)
   \<and> updateVehicle True 9000
     \<lparr>uv_id = 3, uv_make = None, uv_model = None, uv_year = None,
      uv_vin = Some ''1HGCM82633A111111'', uv_license_plate = Some ''BBB222''\<rparr> depot
   = (Inl UniqueViolation, depot)
   \<and> updateVehicle False 9000
     \<lparr>uv_id = 3, uv_make = None, uv_model = None, uv_year = None,
      uv_vin = Some ''1HGCM82633A111111'', uv_license_plate = Some ''NEW999''\<rparr> depot
   = (Inr (Some (car3\<lparr>v_vin := ''1HGCM82633A111111'', v_license_plate := ''NEW999'',
                       v_updated_at := 9000\<rparr>)),
      depot\<lparr>vehiclesTable :=
        [car1, car2, car3\<lparr>v_vin := ''1HGCM82633A111111'', v_license_plate := ''NEW999'',
                           v_updated_at := 9000\<rparr>]\<rparr>)
   \<and> updateVehicle True 9000
     \<lparr>uv_id = 3, uv_make = None, uv_model = None, uv_year = None,
      uv_vin = Some ''1HGCM82633A111111'', uv_license_plate = Some ''NEW999''\<rparr> depot
   = (Inl UniqueViolation, depot)"
  by (simp add: updateVehicle_def update_vehicle_conflict_def update_vehicle_conflicts_def
      uniquenessConditions_def update_vehicles_def unique_ok_def vehicle_updateData_def
      example_defs)

text \<open>
  A patch that supplies the VIN alone is checked as intended: the same VIN, without a
  plate, gets the conflict error of the handler, and the vehicle's own values pass.
\<close>

lemma updateVehicle_single_field_example:
  "updateVehicle uq 9000
     \<lparr>uv_id = 3, uv_make = None, uv_model = None, uv_year = None,
      uv_vin = Some ''1HGCM82633A111111'', uv_license_plate = None\<rparr> depot
   = (Inl (Error ''VIN 1HGCM82633A111111 is already in use by another vehicle''), depot)
   \<and> fst (updateVehicle uq 9000
     \<lparr>uv_id = 3, uv_make = Some ''Kia'', uv_model = None, uv_year = None,
      uv_vin = Some ''1HGCM82633A333333'', uv_license_plate = Some ''CCC333''\<rparr> depot)
   = Inr (Some (car3\<lparr>v_updated_at := 9000, v_make := ''Kia''\<rparr>))"
  by (simp add: updateVehicle_def update_vehicle_conflict_def update_vehicle_conflicts_def
      uniquenessConditions_def update_vehicles_def unique_ok_def vehicle_updateData_def
      truthy_def example_defs)

section \<open>A failed call writes nothing\<close>

lemma createVehicle_failure:
  "isl (fst (createVehicle uq now input s)) \<Longrightarrow> snd (createVehicle uq now input s) = s"
  by (auto simp: createVehicle_def insert_vehicle_def Let_def split: option.splits if_splits)

lemma updateVehicle_failure:
  "isl (fst (updateVehicle uq now input s)) \<Longrightarrow> snd (updateVehicle uq now input s) = s"
  by (auto simp: updateVehicle_def update_vehicles_def Let_def
      split: option.splits if_splits list.splits prod.splits sum.splits)

lemma deleteVehicle_failure:
  "isl (fst (deleteVehicle ident s)) \<Longrightarrow> snd (deleteVehicle ident s) = s"
  by (auto simp: deleteVehicle_def Let_def split: if_splits)

lemma createInspector_failure:
  "isl (fst (createInspector uq now input s)) \<Longrightarrow> snd (createInspector uq now input s) = s"
  by (auto simp: createInspector_def insert_inspector_def Let_def split: option.splits if_splits)

lemma updateInspector_failure:
  "isl (fst (updateInspector uq now input s)) \<Longrightarrow> snd (updateInspector uq now input s) = s"
  by (auto simp: updateInspector_def update_inspectors_def Let_def
      split: option.splits if_splits list.splits prod.splits sum.splits)

lemma deleteInspector_failure:
  "isl (fst (deleteInspector ident s)) \<Longrightarrow> snd (deleteInspector ident s) = s"
  by (auto simp: deleteInspector_def Let_def split: if_splits)

lemma createInspection_failure:
  "isl (fst (createInspection now input s)) \<Longrightarrow> snd (createInspection now input s) = s"
  by (auto simp: createInspection_def insert_inspection_def Let_def split: if_splits prod.splits)

text \<open>
  The two handlers that run their update statement before the not-found test: when the
  statement returns no row it has matched none, and a table mapped over no matching row
  is the table it was.
\<close>

lemma updateInspection_failure:
  "isl (fst (updateInspection now input s)) \<Longrightarrow> snd (updateInspection now input s) = s"
  by (auto simp: updateInspection_def update_inspections_def map_if_filter_empty
      split: list.splits)

lemma createInspectionItems_failure:
  "isl (fst (createInspectionItems now input s))
   \<Longrightarrow> snd (createInspectionItems now input s) = s"
  by (auto simp: createInspectionItems_def insert_inspection_items_def Let_def
      split: if_splits prod.splits)

lemma updateInspectionItem_failure:
  "isl (fst (updateInspectionItem now input s))
   \<Longrightarrow> snd (updateInspectionItem now input s) = s"
  by (auto simp: updateInspectionItem_def update_inspection_items_def map_if_filter_empty
      split: list.splits)

text \<open>
  C2. Whenever a handler fails (its result is an error: one the handler throws, or the
  storage's refusal of a statement), the persisted state after the call is the state
  before it. This holds for each of the ten handlers that write; the remaining handlers
  only select. \<open>updateInspection\<close> and \<open>updateInspectionItem\<close> have already run their
  update statement when they throw, \<open>createInspectionItems\<close> throws before its insert.
\<close>

theorem failed_call_leaves_state:
  "(isl (fst (createVehicle uq now cv s)) \<longrightarrow> snd (createVehicle uq now cv s) = s)
   \<and> (isl (fst (updateVehicle uq now uv s)) \<longrightarrow> snd (updateVehicle uq now uv s) = s)
   \<and> (isl (fst (deleteVehicle dv s)) \<longrightarrow> snd (deleteVehicle dv s) = s)
   \<and> (isl (fst (createInspector uq now cp s)) \<longrightarrow> snd (createInspector uq now cp s) = s)
   \<and> (isl (fst (updateInspector uq now up s)) \<longrightarrow> snd (updateInspector uq now up s) = s)
   \<and> (isl (fst (deleteInspector dp s)) \<longrightarrow> snd (deleteInspector dp s) = s)
   \<and> (isl (fst (createInspection now ci s)) \<longrightarrow> snd (createInspection now ci s) = s)
   \<and> (isl (fst (updateInspection now ui s)) \<longrightarrow> snd (updateInspection now ui s) = s)
   \<and> (isl (fst (createInspectionItems now cs s))
        \<longrightarrow> snd (createInspectionItems now cs s) = s)
   \<and> (isl (fst (updateInspectionItem now ut s))
        \<longrightarrow> snd (updateInspectionItem now ut s) = s)"
  by (intro conjI impI;
      erule createVehicle_failure updateVehicle_failure deleteVehicle_failure
        createInspector_failure updateInspector_failure deleteInspector_failure
        createInspection_failure updateInspection_failure createInspectionItems_failure
        updateInspectionItem_failure)

text \<open>
  In the example database each of the ten handlers is made to fail: a taken VIN, unknown
  ids, a taken employee id, an inspector with two inspections.
\<close>

theorem failed_call_leaves_state_witness:
  "isl (fst (createVehicle True 9000
        \<lparr>cv_make = ''Kia'', cv_model = ''Rio'', cv_year = 2019,
         cv_vin = ''1HGCM82633A111111'', cv_license_plate = ''NEW999''\<rparr> depot))
   \<and> snd (createVehicle True 9000
        \<lparr>cv_make = ''Kia'', cv_model = ''Rio'', cv_year = 2019,
         cv_vin = ''1HGCM82633A111111'', cv_license_plate = ''NEW999''\<rparr> depot) = depot
   \<and> isl (fst (updateVehicle True 9000
        \<lparr>uv_id = 99, uv_make = Some ''Kia'', uv_model = None, uv_year = None,
         uv_vin = None, uv_license_plate = None\<rparr> depot))
   \<and> snd (updateVehicle True 9000
        \<lparr>uv_id = 99, uv_make = Some ''Kia'', uv_model = None, uv_year = None,
         uv_vin = None, uv_license_plate = None\<rparr> depot) = depot
   \<and> isl (fst (deleteVehicle 99 depot)) \<and> snd (deleteVehicle 99 depot) = depot
   \<and> isl (fst (createInspector True 9000
        \<lparr>cp_name = ''Bob Ray'', cp_employee_id = ''EMP001''\<rparr> depot))
   \<and> snd (createInspector True 9000
        \<lparr>cp_name = ''Bob Ray'', cp_employee_id = ''EMP001''\<rparr> depot) = depot
   \<and> isl (fst (updateInspector True 9000
        \<lparr>up_id = 2, up_name = None, up_employee_id = Some ''EMP001''\<rparr> depot))
   \<and> snd (updateInspector True 9000
        \<lparr>up_id = 2, up_name = None, up_employee_id = Some ''EMP001''\<rparr> depot) = depot
   \<and> isl (fst (deleteInspector 1 depot)) \<and> snd (deleteInspector 1 depot) = depot
   \<and> isl (fst (createInspection 9000
        \<lparr>ci_vehicle_id = 99, ci_inspector_id = 1, ci_inspection_date = 30000,
         ci_notes = Undefined\<rparr> depot))
   \<and> snd (createInspection 9000
        \<lparr>ci_vehicle_id = 99, ci_inspector_id = 1, ci_inspection_date = 30000,
         ci_notes = Undefined\<rparr> depot) = depot
   \<and> isl (fst (updateInspection 9000
        \<lparr>ui_id = 99, ui_completed = Some True, ui_notes = Undefined\<rparr> depot))
   \<and> snd (updateInspection 9000
        \<lparr>ui_id = 99, ui_completed = Some True, ui_notes = Undefined\<rparr> depot) = depot
   \<and> isl (fst (createInspectionItems 9000
        \<lparr>cs_inspection_id = 99, cs_items = []\<rparr> depot))
   \<and> snd (createInspectionItems 9000
        \<lparr>cs_inspection_id = 99, cs_items = []\<rparr> depot) = depot
   \<and> isl (fst (updateInspectionItem 9000
        \<lparr>ut_id = 99, ut_status = Some Fail, ut_comments = Null\<rparr> depot))
   \<and> snd (updateInspectionItem 9000
        \<lparr>ut_id = 99, ut_status = Some Fail, ut_comments = Null\<rparr> depot) = depot"
  using failed_call_leaves_state [where uq = True and now = 9000 and s = depot
      and cv = "\<lparr>cv_make = ''Kia'', cv_model = ''Rio'', cv_year = 2019,
                 cv_vin = ''1HGCM82633A111111'', cv_license_plate = ''NEW999''\<rparr>"
      and uv = "\<lparr>uv_id = 99, uv_make = Some ''Kia'', uv_model = None, uv_year = None,
                 uv_vin = None, uv_license_plate = None\<rparr>"
      and dv = 99
      and cp = "\<lparr>cp_name = ''Bob Ray'', cp_employee_id = ''EMP001''\<rparr>"
      and up = "\<lparr>up_id = 2, up_name = None, up_employee_id = Some ''EMP001''\<rparr>"
      and dp = 1
      and ci = "\<lparr>ci_vehicle_id = 99, ci_inspector_id = 1, ci_inspection_date = 30000,
                 ci_notes = Undefined\<rparr>"
      and ui = "\<lparr>ui_id = 99, ui_completed = Some True, ui_notes = Undefined\<rparr>"
      and cs = "\<lparr>cs_inspection_id = 99, cs_items = []\<rparr>"
      and ut = "\<lparr>ut_id = 99, ut_status = Some Fail, ut_comments = Null\<rparr>"]
  by (simp add: createVehicle_def create_vehicle_conflict_def updateVehicle_def
      deleteVehicle_def createInspector_def updateInspector_def
      update_inspector_conflict_def deleteInspector_def createInspection_def
      updateInspection_def update_inspections_def createInspectionItems_def
      updateInspectionItem_def update_inspection_items_def example_defs)

section \<open>Updates are sparse patches\<close>

lemma list_all2_map_if:
  "(\<And>q. P q \<Longrightarrow> R q (f q))
   \<Longrightarrow> list_all2 (\<lambda>q q'. if P q then R q q' else q' = q) xs (map (\<lambda>r. if P r then f r else r) xs)"
  by (induction xs) auto

lemma returned_row_stored:
  assumes "map f (filter P xs) = r' # rest"
  shows "\<exists>r. r \<in> set xs \<and> P r \<and> r' = f r \<and> r' \<in> set (map (\<lambda>r. if P r then f r else r) xs)"
proof -
  from assms obtain r where r: "r \<in> set (filter P xs)" "r' = f r"
    by (metis list.set_intros(1) list.set_map imageE)
  then have "f r \<in> (\<lambda>r. if P r then f r else r) ` set xs"
    by (auto intro!: image_eqI [where x = r])
  with r show ?thesis by auto
qed

lemma vehicle_updateData_patched: "vehicle_patched now input r (vehicle_updateData now input r)"
  by (simp add: vehicle_patched_def vehicle_updateData_def)

lemma inspector_updateData_patched:
  "inspector_patched now input r (inspector_updateData now input r)"
  by (simp add: inspector_patched_def inspector_updateData_def)

lemma inspection_updateData_patched:
  "inspection_patched now input r (inspection_updateData now input r)"
  by (simp add: inspection_patched_def inspection_updateData_def)

lemma item_updateData_patched: "item_patched now input r (item_updateData now input r)"
  by (simp add: item_patched_def item_updateData_def)

lemma updateVehicle_success:
  assumes "updateVehicle uq now uv s = (Inr res_v, s_v)"
  shows "\<exists>r r'. res_v = Some r' \<and> r \<in> set (vehiclesTable s) \<and> v_id r = uv_id uv
            \<and> vehicle_patched now uv r r' \<and> r' \<in> set (vehiclesTable s_v)
            \<and> list_all2 (\<lambda>q q'. if v_id q = uv_id uv then vehicle_patched now uv q q' else q' = q)
                  (vehiclesTable s) (vehiclesTable s_v)
            \<and> s_v = s\<lparr>vehiclesTable := vehiclesTable s_v\<rparr>"
proof -
  let ?f = "vehicle_updateData now uv" and ?P = "\<lambda>r. v_id r = uv_id uv"
  from assms obtain r' rest where
    ret: "map ?f (filter ?P (vehiclesTable s)) = r' # rest" and
    res: "res_v = Some r'" and
    s': "s_v = s\<lparr>vehiclesTable := map (\<lambda>r. if ?P r then ?f r else r) (vehiclesTable s)\<rparr>"
    by (auto simp: updateVehicle_def update_vehicles_def Let_def
        split: option.splits if_splits list.splits)
  from returned_row_stored [OF ret] obtain r where
    "r \<in> set (vehiclesTable s)" "?P r" "r' = ?f r" "r' \<in> set (vehiclesTable s_v)"
    by (auto simp: s')
  moreover have "list_all2 (\<lambda>q q'. if ?P q then vehicle_patched now uv q q' else q' = q)
      (vehiclesTable s) (vehiclesTable s_v)"
    unfolding s' by (simp add: list_all2_map_if vehicle_updateData_patched)
  moreover have "s_v = s\<lparr>vehiclesTable := vehiclesTable s_v\<rparr>"
    by (simp add: s')
  ultimately show ?thesis
    using res vehicle_updateData_patched by blast
qed

lemma updateInspector_success:
  assumes "updateInspector uq now up s = (Inr res_p, s_p)"
  shows "\<exists>r r'. res_p = Some r' \<and> r \<in> set (inspectorsTable s) \<and> i_id r = up_id up
            \<and> inspector_patched now up r r' \<and> r' \<in> set (inspectorsTable s_p)
            \<and> list_all2 (\<lambda>q q'. if i_id q = up_id up then inspector_patched now up q q' else q' = q)
                  (inspectorsTable s) (inspectorsTable s_p)
            \<and> s_p = s\<lparr>inspectorsTable := inspectorsTable s_p\<rparr>"
proof -
  let ?f = "inspector_updateData now up" and ?P = "\<lambda>r. i_id r = up_id up"
  from assms obtain r' rest where
    ret: "map ?f (filter ?P (inspectorsTable s)) = r' # rest" and
    res: "res_p = Some r'" and
    s': "s_p = s\<lparr>inspectorsTable := map (\<lambda>r. if ?P r then ?f r else r) (inspectorsTable s)\<rparr>"
    by (auto simp: updateInspector_def update_inspectors_def Let_def
        split: option.splits if_splits list.splits)
  from returned_row_stored [OF ret] obtain r where
    "r \<in> set (inspectorsTable s)" "?P r" "r' = ?f r" "r' \<in> set (inspectorsTable s_p)"
    by (auto simp: s')
  moreover have "list_all2 (\<lambda>q q'. if ?P q then inspector_patched now up q q' else q' = q)
      (inspectorsTable s) (inspectorsTable s_p)"
    unfolding s' by (simp add: list_all2_map_if inspector_updateData_patched)
  moreover have "s_p = s\<lparr>inspectorsTable := inspectorsTable s_p\<rparr>"
    by (simp add: s')
  ultimately show ?thesis
    using res inspector_updateData_patched by blast
qed

lemma updateInspection_success:
  assumes "updateInspection now ui s = (Inr res_n, s_n)"
  shows "\<exists>r. r \<in> set (inspectionsTable s) \<and> n_id r = ui_id ui
            \<and> inspection_patched now ui r res_n \<and> res_n \<in> set (inspectionsTable s_n)
            \<and> list_all2 (\<lambda>q q'. if n_id q = ui_id ui then inspection_patched now ui q q' else q' = q)
                  (inspectionsTable s) (inspectionsTable s_n)
            \<and> s_n = s\<lparr>inspectionsTable := inspectionsTable s_n\<rparr>"
proof -
  let ?f = "inspection_updateData now ui" and ?P = "\<lambda>r. n_id r = ui_id ui"
  from assms obtain rest where
    ret: "map ?f (filter ?P (inspectionsTable s)) = res_n # rest" and
    s': "s_n = s\<lparr>inspectionsTable := map (\<lambda>r. if ?P r then ?f r else r) (inspectionsTable s)\<rparr>"
    by (auto simp: updateInspection_def update_inspections_def split: list.splits)
  from returned_row_stored [OF ret] obtain r where
    "r \<in> set (inspectionsTable s)" "?P r" "res_n = ?f r" "res_n \<in> set (inspectionsTable s_n)"
    by (auto simp: s')
  moreover have "list_all2 (\<lambda>q q'. if ?P q then inspection_patched now ui q q' else q' = q)
      (inspectionsTable s) (inspectionsTable s_n)"
    unfolding s' by (simp add: list_all2_map_if inspection_updateData_patched)
  moreover have "s_n = s\<lparr>inspectionsTable := inspectionsTable s_n\<rparr>"
    by (simp add: s')
  ultimately show ?thesis
    using inspection_updateData_patched by blast
qed

lemma updateInspectionItem_success:
  assumes "updateInspectionItem now ut s = (Inr res_t, s_t)"
  shows "\<exists>r. r \<in> set (inspectionItemsTable s) \<and> t_id r = ut_id ut
            \<and> item_patched now ut r res_t \<and> res_t \<in> set (inspectionItemsTable s_t)
            \<and> list_all2 (\<lambda>q q'. if t_id q = ut_id ut then item_patched now ut q q' else q' = q)
                  (inspectionItemsTable s) (inspectionItemsTable s_t)
            \<and> s_t = s\<lparr>inspectionItemsTable := inspectionItemsTable s_t\<rparr>"
proof -
  let ?f = "item_updateData now ut" and ?P = "\<lambda>r. t_id r = ut_id ut"
  from assms obtain rest where
    ret: "map ?f (filter ?P (inspectionItemsTable s)) = res_t # rest" and
    s': "s_t = s\<lparr>inspectionItemsTable :=
                  map (\<lambda>r. if ?P r then ?f r else r) (inspectionItemsTable s)\<rparr>"
    by (auto simp: updateInspectionItem_def update_inspection_items_def split: list.splits)
  from returned_row_stored [OF ret] obtain r where
    "r \<in> set (inspectionItemsTable s)" "?P r" "res_t = ?f r"
    "res_t \<in> set (inspectionItemsTable s_t)"
    by (auto simp: s')
  moreover have "list_all2 (\<lambda>q q'. if ?P q then item_patched now ut q q' else q' = q)
      (inspectionItemsTable s) (inspectionItemsTable s_t)"
    unfolding s' by (simp add: list_all2_map_if item_updateData_patched)
  moreover have "s_t = s\<lparr>inspectionItemsTable := inspectionItemsTable s_t\<rparr>"
    by (simp add: s')
  ultimately show ?thesis
    using item_updateData_patched by blast
qed

text \<open>
  C3, as stated, asks that \<open>updated_at\<close> be later after every successful update than it
  was before. The handlers store the clock reading of the call. An update of inspection 2
  in the millisecond in which the row was last written (reading 5000) succeeds and
  leaves \<open>updated_at\<close> at 5000, which is not later.
\<close>

theorem update_same_millisecond_counterexample:
  "updateInspection 5000 \<lparr>ui_id = 2, ui_completed = Some True, ui_notes = Undefined\<rparr> depot
   = (Inr (visit2\<lparr>n_completed := True\<rparr>),
      depot\<lparr>inspectionsTable := [visit1, visit2\<lparr>n_completed := True\<rparr>]\<rparr>)
   \<and> \<not> n_updated_at visit2 < n_updated_at (visit2\<lparr>n_completed := True\<rparr>)"
  by (simp add: updateInspection_def update_inspections_def inspection_updateData_def
      example_defs)

text \<open>
  C3, amended. A successful call of \<open>updateVehicle\<close>, \<open>updateInspector\<close>,
  \<open>updateInspection\<close> or \<open>updateInspectionItem\<close> returns a row \<open>r'\<close> that patches a row
  \<open>r\<close> of the table with the id of the input: every field absent from the patch keeps
  its value, every field present (an explicit \<open>null\<close> for \<open>notes\<close> or \<open>comments\<close> too) has
  the supplied value, id and \<open>created_at\<close> are unchanged, and \<open>updated_at\<close> is the clock
  reading of the call (so it is later than before whenever that reading is). The
  returned row is stored; the table after the call is the table before it with the rows
  of that id patched in place and every other row as it was; the other tables and the
  sequences are untouched.
\<close>

theorem successful_update_is_sparse_patch:
  "(updateVehicle uq now uv s = (Inr res_v, s_v)
      \<longrightarrow> (\<exists>r r'. res_v = Some r' \<and> r \<in> set (vehiclesTable s) \<and> v_id r = uv_id uv
            \<and> vehicle_patched now uv r r' \<and> r' \<in> set (vehiclesTable s_v)
            \<and> list_all2 (\<lambda>q q'. if v_id q = uv_id uv then vehicle_patched now uv q q' else q' = q)
                  (vehiclesTable s) (vehiclesTable s_v)
            \<and> s_v = s\<lparr>vehiclesTable := vehiclesTable s_v\<rparr>)) \<and>
   (updateInspector uq now up s = (Inr res_p, s_p)
      \<longrightarrow> (\<exists>r r'. res_p = Some r' \<and> r \<in> set (inspectorsTable s) \<and> i_id r = up_id up
            \<and> inspector_patched now up r r' \<and> r' \<in> set (inspectorsTable s_p)
            \<and> list_all2 (\<lambda>q q'. if i_id q = up_id up then inspector_patched now up q q' else q' = q)
                  (inspectorsTable s) (inspectorsTable s_p)
            \<and> s_p = s\<lparr>inspectorsTable := inspectorsTable s_p\<rparr>)) \<and>
   (updateInspection now ui s = (Inr res_n, s_n)
      \<longrightarrow> (\<exists>r. r \<in> set (inspectionsTable s) \<and> n_id r = ui_id ui
            \<and> inspection_patched now ui r res_n \<and> res_n \<in> set (inspectionsTable s_n)
            \<and> list_all2 (\<lambda>q q'. if n_id q = ui_id ui then inspection_patched now ui q q' else q' = q)
                  (inspectionsTable s) (inspectionsTable s_n)
            \<and> s_n = s\<lparr>inspectionsTable := inspectionsTable s_n\<rparr>)) \<and>
   (updateInspectionItem now ut s = (Inr res_t, s_t)
      \<longrightarrow> (\<exists>r. r \<in> set (inspectionItemsTable s) \<and> t_id r = ut_id ut
            \<and> item_patched now ut r res_t \<and> res_t \<in> set (inspectionItemsTable s_t)
            \<and> list_all2 (\<lambda>q q'. if t_id q = ut_id ut then item_patched now ut q q' else q' = q)
                  (inspectionItemsTable s) (inspectionItemsTable s_t)
            \<and> s_t = s\<lparr>inspectionItemsTable := inspectionItemsTable s_t\<rparr>))"
  by (intro conjI impI; erule updateVehicle_success updateInspector_success
      updateInspection_success updateInspectionItem_success)

text \<open>
  In the example database: vehicle 3 gets a new make and year (and its own plate again),
  inspector 2 a new name, inspection 1 has its notes set to \<open>null\<close>, item 1 fails.
\<close>

theorem successful_update_is_sparse_patch_witness:
  "updateVehicle True 9000 (\<lparr>uv_id = 3, uv_make = Some ''Kia'', uv_model = None, uv_year = Some 2024, uv_vin = None, uv_license_plate = Some ''CCC333''\<rparr>) depot = (Inr (Some (car3\<lparr>v_updated_at := 9000, v_make := ''Kia'', v_year := 2024\<rparr>)), (depot\<lparr>vehiclesTable := [car1, car2, car3\<lparr>v_updated_at := 9000, v_make := ''Kia'', v_year := 2024\<rparr>]\<rparr>))
   \<and> (\<exists>r r'. (Some (car3\<lparr>v_updated_at := 9000, v_make := ''Kia'', v_year := 2024\<rparr>)) = Some r' \<and> r \<in> set (vehiclesTable depot) \<and> v_id r = uv_id (\<lparr>uv_id = 3, uv_make = Some ''Kia'', uv_model = None, uv_year = Some 2024, uv_vin = None, uv_license_plate = Some ''CCC333''\<rparr>)
            \<and> vehicle_patched 9000 (\<lparr>uv_id = 3, uv_make = Some ''Kia'', uv_model = None, uv_year = Some 2024, uv_vin = None, uv_license_plate = Some ''CCC333''\<rparr>) r r' \<and> r' \<in> set (vehiclesTable (depot\<lparr>vehiclesTable := [car1, car2, car3\<lparr>v_updated_at := 9000, v_make := ''Kia'', v_year := 2024\<rparr>]\<rparr>))
            \<and> list_all2 (\<lambda>q q'. if v_id q = uv_id (\<lparr>uv_id = 3, uv_make = Some ''Kia'', uv_model = None, uv_year = Some 2024, uv_vin = None, uv_license_plate = Some ''CCC333''\<rparr>) then vehicle_patched 9000 (\<lparr>uv_id = 3, uv_make = Some ''Kia'', uv_model = None, uv_year = Some 2024, uv_vin = None, uv_license_plate = Some ''CCC333''\<rparr>) q q' else q' = q)
                  (vehiclesTable depot) (vehiclesTable (depot\<lparr>vehiclesTable := [car1, car2, car3\<lparr>v_updated_at := 9000, v_make := ''Kia'', v_year := 2024\<rparr>]\<rparr>))
            \<and> (depot\<lparr>vehiclesTable := [car1, car2, car3\<lparr>v_updated_at := 9000, v_make := ''Kia'', v_year := 2024\<rparr>]\<rparr>) = depot\<lparr>vehiclesTable := vehiclesTable (depot\<lparr>vehiclesTable := [car1, car2, car3\<lparr>v_updated_at := 9000, v_make := ''Kia'', v_year := 2024\<rparr>]\<rparr>)\<rparr>) \<and>
   updateInspector True 9000 (\<lparr>up_id = 2, up_name = Some ''Alice Miller'', up_employee_id = None\<rparr>) depot = (Inr (Some (alice\<lparr>i_updated_at := 9000, i_name := ''Alice Miller''\<rparr>)), (depot\<lparr>inspectorsTable := [john, alice\<lparr>i_updated_at := 9000, i_name := ''Alice Miller''\<rparr>]\<rparr>))
   \<and> (\<exists>r r'. (Some (alice\<lparr>i_updated_at := 9000, i_name := ''Alice Miller''\<rparr>)) = Some r' \<and> r \<in> set (inspectorsTable depot) \<and> i_id r = up_id (\<lparr>up_id = 2, up_name = Some ''Alice Miller'', up_employee_id = None\<rparr>)
            \<and> inspector_patched 9000 (\<lparr>up_id = 2, up_name = Some ''Alice Miller'', up_employee_id = None\<rparr>) r r' \<and> r' \<in> set (inspectorsTable (depot\<lparr>inspectorsTable := [john, alice\<lparr>i_updated_at := 9000, i_name := ''Alice Miller''\<rparr>]\<rparr>))
            \<and> list_all2 (\<lambda>q q'. if i_id q = up_id (\<lparr>up_id = 2, up_name = Some ''Alice Miller'', up_employee_id = None\<rparr>) then inspector_patched 9000 (\<lparr>up_id = 2, up_name = Some ''Alice Miller'', up_employee_id = None\<rparr>) q q' else q' = q)
                  (inspectorsTable depot) (inspectorsTable (depot\<lparr>inspectorsTable := [john, alice\<lparr>i_updated_at := 9000, i_name := ''Alice Miller''\<rparr>]\<rparr>))
            \<and> (depot\<lparr>inspectorsTable := [john, alice\<lparr>i_updated_at := 9000, i_name := ''Alice Miller''\<rparr>]\<rparr>) = depot\<lparr>inspectorsTable := inspectorsTable (depot\<lparr>inspectorsTable := [john, alice\<lparr>i_updated_at := 9000, i_name := ''Alice Miller''\<rparr>]\<rparr>)\<rparr>) \<and>
   updateInspection 9000 (\<lparr>ui_id = 1, ui_completed = None, ui_notes = Null\<rparr>) depot = (Inr (visit1\<lparr>n_updated_at := 9000, n_notes := None\<rparr>), (depot\<lparr>inspectionsTable := [visit1\<lparr>n_updated_at := 9000, n_notes := None\<rparr>, visit2]\<rparr>))
   \<and> (\<exists>r. r \<in> set (inspectionsTable depot) \<and> n_id r = ui_id (\<lparr>ui_id = 1, ui_completed = None, ui_notes = Null\<rparr>)
            \<and> inspection_patched 9000 (\<lparr>ui_id = 1, ui_completed = None, ui_notes = Null\<rparr>) r (visit1\<lparr>n_updated_at := 9000, n_notes := None\<rparr>) \<and> (visit1\<lparr>n_updated_at := 9000, n_notes := None\<rparr>) \<in> set (inspectionsTable (depot\<lparr>inspectionsTable := [visit1\<lparr>n_updated_at := 9000, n_notes := None\<rparr>, visit2]\<rparr>))
            \<and> list_all2 (\<lambda>q q'. if n_id q = ui_id (\<lparr>ui_id = 1, ui_completed = None, ui_notes = Null\<rparr>) then inspection_patched 9000 (\<lparr>ui_id = 1, ui_completed = None, ui_notes = Null\<rparr>) q q' else q' = q)
                  (inspectionsTable depot) (inspectionsTable (depot\<lparr>inspectionsTable := [visit1\<lparr>n_updated_at := 9000, n_notes := None\<rparr>, visit2]\<rparr>))
            \<and> (depot\<lparr>inspectionsTable := [visit1\<lparr>n_updated_at := 9000, n_notes := None\<rparr>, visit2]\<rparr>) = depot\<lparr>inspectionsTable := inspectionsTable (depot\<lparr>inspectionsTable := [visit1\<lparr>n_updated_at := 9000, n_notes := None\<rparr>, visit2]\<rparr>)\<rparr>) \<and>
   updateInspectionItem 9000 (\<lparr>ut_id = 1, ut_status = Some Fail, ut_comments = Undefined\<rparr>) depot = (Inr (brakes\<lparr>t_updated_at := 9000, t_status := Fail\<rparr>), (depot\<lparr>inspectionItemsTable := [brakes\<lparr>t_updated_at := 9000, t_status := Fail\<rparr>]\<rparr>))
   \<and> (\<exists>r. r \<in> set (inspectionItemsTable depot) \<and> t_id r = ut_id (\<lparr>ut_id = 1, ut_status = Some Fail, ut_comments = Undefined\<rparr>)
            \<and> item_patched 9000 (\<lparr>ut_id = 1, ut_status = Some Fail, ut_comments = Undefined\<rparr>) r (brakes\<lparr>t_updated_at := 9000, t_status := Fail\<rparr>) \<and> (brakes\<lparr>t_updated_at := 9000, t_status := Fail\<rparr>) \<in> set (inspectionItemsTable (depot\<lparr>inspectionItemsTable := [brakes\<lparr>t_updated_at := 9000, t_status := Fail\<rparr>]\<rparr>))
            \<and> list_all2 (\<lambda>q q'. if t_id q = ut_id (\<lparr>ut_id = 1, ut_status = Some Fail, ut_comments = Undefined\<rparr>) then item_patched 9000 (\<lparr>ut_id = 1, ut_status = Some Fail, ut_comments = Undefined\<rparr>) q q' else q' = q)
                  (inspectionItemsTable depot) (inspectionItemsTable (depot\<lparr>inspectionItemsTable := [brakes\<lparr>t_updated_at := 9000, t_status := Fail\<rparr>]\<rparr>))
            \<and> (depot\<lparr>inspectionItemsTable := [brakes\<lparr>t_updated_at := 9000, t_status := Fail\<rparr>]\<rparr>) = depot\<lparr>inspectionItemsTable := inspectionItemsTable (depot\<lparr>inspectionItemsTable := [brakes\<lparr>t_updated_at := 9000, t_status := Fail\<rparr>]\<rparr>)\<rparr>)"
proof -
  have h_v: "updateVehicle True 9000 (\<lparr>uv_id = 3, uv_make = Some ''Kia'', uv_model = None, uv_year = Some 2024, uv_vin = None, uv_license_plate = Some ''CCC333''\<rparr>) depot = (Inr (Some (car3\<lparr>v_updated_at := 9000, v_make := ''Kia'', v_year := 2024\<rparr>)), (depot\<lparr>vehiclesTable := [car1, car2, car3\<lparr>v_updated_at := 9000, v_make := ''Kia'', v_year := 2024\<rparr>]\<rparr>))"
    by (simp add: updateVehicle_def update_vehicle_conflict_def uniquenessConditions_def update_vehicle_conflicts_def update_vehicles_def unique_ok_def vehicle_updateData_def example_defs)
  have h_p: "updateInspector True 9000 (\<lparr>up_id = 2, up_name = Some ''Alice Miller'', up_employee_id = None\<rparr>) depot = (Inr (Some (alice\<lparr>i_updated_at := 9000, i_name := ''Alice Miller''\<rparr>)), (depot\<lparr>inspectorsTable := [john, alice\<lparr>i_updated_at := 9000, i_name := ''Alice Miller''\<rparr>]\<rparr>))"
    by (simp add: updateInspector_def update_inspector_conflict_def update_inspectors_def unique_ok_def inspector_updateData_def example_defs)
  have h_n: "updateInspection 9000 (\<lparr>ui_id = 1, ui_completed = None, ui_notes = Null\<rparr>) depot = (Inr (visit1\<lparr>n_updated_at := 9000, n_notes := None\<rparr>), (depot\<lparr>inspectionsTable := [visit1\<lparr>n_updated_at := 9000, n_notes := None\<rparr>, visit2]\<rparr>))"
    by (simp add: updateInspection_def update_inspections_def inspection_updateData_def example_defs)
  have h_t: "updateInspectionItem 9000 (\<lparr>ut_id = 1, ut_status = Some Fail, ut_comments = Undefined\<rparr>) depot = (Inr (brakes\<lparr>t_updated_at := 9000, t_status := Fail\<rparr>), (depot\<lparr>inspectionItemsTable := [brakes\<lparr>t_updated_at := 9000, t_status := Fail\<rparr>]\<rparr>))"
    by (simp add: updateInspectionItem_def update_inspection_items_def item_updateData_def example_defs)
  note t = successful_update_is_sparse_patch [where uq = "True"
      and now = "9000"
      and s = "depot"
      and uv = "\<lparr>uv_id = 3, uv_make = Some ''Kia'', uv_model = None, uv_year = Some 2024, uv_vin = None, uv_license_plate = Some ''CCC333''\<rparr>"
      and res_v = "Some (car3\<lparr>v_updated_at := 9000, v_make := ''Kia'', v_year := 2024\<rparr>)"
      and s_v = "depot\<lparr>vehiclesTable := [car1, car2, car3\<lparr>v_updated_at := 9000, v_make := ''Kia'', v_year := 2024\<rparr>]\<rparr>"
      and up = "\<lparr>up_id = 2, up_name = Some ''Alice Miller'', up_employee_id = None\<rparr>"
      and res_p = "Some (alice\<lparr>i_updated_at := 9000, i_name := ''Alice Miller''\<rparr>)"
      and s_p = "depot\<lparr>inspectorsTable := [john, alice\<lparr>i_updated_at := 9000, i_name := ''Alice Miller''\<rparr>]\<rparr>"
      and ui = "\<lparr>ui_id = 1, ui_completed = None, ui_notes = Null\<rparr>"
      and res_n = "visit1\<lparr>n_updated_at := 9000, n_notes := None\<rparr>"
      and s_n = "depot\<lparr>inspectionsTable := [visit1\<lparr>n_updated_at := 9000, n_notes := None\<rparr>, visit2]\<rparr>"
      and ut = "\<lparr>ut_id = 1, ut_status = Some Fail, ut_comments = Undefined\<rparr>"
      and res_t = "brakes\<lparr>t_updated_at := 9000, t_status := Fail\<rparr>"
      and s_t = "depot\<lparr>inspectionItemsTable := [brakes\<lparr>t_updated_at := 9000, t_status := Fail\<rparr>]\<rparr>"]
  show ?thesis
    using t h_v h_p h_n h_t by blast
qed

section \<open>Creating a vehicle\<close>

lemma createVehicle_first_collision:
  assumes tbl: "vehiclesTable s = before @ r # rest"
    and before: "cv_vin cv \<notin> v_vin ` set before"
      "cv_license_plate cv \<notin> v_license_plate ` set before"
    and r: "v_vin r = cv_vin cv \<or> v_license_plate r = cv_license_plate cv"
  shows "createVehicle uq now cv s
    = (Inl (Error (if v_vin r = cv_vin cv
                   then ''Vehicle with VIN '' @ cv_vin cv @ '' already exists''
                   else ''Vehicle with license plate '' @ cv_license_plate cv
                        @ '' already exists'')), s)"
proof -
  let ?P = "\<lambda>r. v_vin r = cv_vin cv \<or> v_license_plate r = cv_license_plate cv"
  from before have "filter ?P before = []"
    by (rule keys_filter_empty)
  with r have "filter ?P (vehiclesTable s) = r # filter ?P rest"
    by (simp add: tbl)
  with r show ?thesis
    by (auto simp: createVehicle_def create_vehicle_conflict_def)
qed

lemma createVehicle_collision:
  assumes "cv_vin cv \<in> v_vin ` set (vehiclesTable s)
           \<or> cv_license_plate cv \<in> v_license_plate ` set (vehiclesTable s)"
  shows "createVehicle uq now cv s
           = (Inl (Error (''Vehicle with VIN '' @ cv_vin cv @ '' already exists'')), s)
         \<or> createVehicle uq now cv s
           = (Inl (Error (''Vehicle with license plate '' @ cv_license_plate cv
                          @ '' already exists'')), s)"
proof -
  let ?P = "\<lambda>r. v_vin r = cv_vin cv \<or> v_license_plate r = cv_license_plate cv"
  from assms have "\<exists>r \<in> set (vehiclesTable s). ?P r"
    by auto
  then obtain before r rest where
    *: "vehiclesTable s = before @ r # rest" "?P r" "\<forall>q \<in> set before. \<not> ?P q"
    using split_list_first_prop [of "vehiclesTable s" ?P] by blast
  from *(3) have "cv_vin cv \<notin> v_vin ` set before"
    "cv_license_plate cv \<notin> v_license_plate ` set before"
    by auto
  from createVehicle_first_collision [OF *(1) this *(2), of uq now] show ?thesis
    by (cases "v_vin r = cv_vin cv") simp_all
qed

lemma createVehicle_fresh:
  assumes "cv_vin cv \<notin> v_vin ` set (vehiclesTable s)"
    and "cv_license_plate cv \<notin> v_license_plate ` set (vehiclesTable s)"
  shows "createVehicle uq now cv s
    = (Inr \<lparr>v_id = vehicles_seq s, v_make = cv_make cv, v_model = cv_model cv,
             v_year = cv_year cv, v_vin = cv_vin cv,
             v_license_plate = cv_license_plate cv,
             v_created_at = now, v_updated_at = now\<rparr>,
       s\<lparr>vehiclesTable := vehiclesTable s @
            [\<lparr>v_id = vehicles_seq s, v_make = cv_make cv, v_model = cv_model cv,
              v_year = cv_year cv, v_vin = cv_vin cv,
              v_license_plate = cv_license_plate cv,
              v_created_at = now, v_updated_at = now\<rparr>],
         vehicles_seq := vehicles_seq s + 1\<rparr>)"
proof -
  from assms have none:
    "filter (\<lambda>r. v_vin r = cv_vin cv \<or> v_license_plate r = cv_license_plate cv)
       (vehiclesTable s) = []"
    "filter (\<lambda>q. v_vin q = cv_vin cv) (vehiclesTable s) = []"
    "filter (\<lambda>q. v_license_plate q = cv_license_plate cv) (vehiclesTable s) = []"
    by (simp_all add: keys_filter_empty key_filter_empty)
  then show ?thesis
    by (simp add: createVehicle_def create_vehicle_conflict_def insert_vehicle_def
        unique_ok_def Let_def)
qed

text \<open>
  C4, as stated, asks for the VIN collision to be the one reported whenever both the VIN
  and the plate of the input are taken, also by two different rows. The handler looks at
  the first row of its combined lookup only. In the example database the input takes the
  VIN of vehicle 2 and the plate of vehicle 1: the first row found is vehicle 1, whose
  VIN differs, and the error names the license plate.
\<close>

theorem createVehicle_reports_plate_counterexample:
  "createVehicle True 9000
     \<lparr>cv_make = ''Kia'', cv_model = ''Rio'', cv_year = 2019,
      cv_vin = ''1HGCM82633A222222'', cv_license_plate = ''AAA111''\<rparr> depot
   = (Inl (Error ''Vehicle with license plate AAA111 already exists''), depot)
   \<and> v_vin car2 = ''1HGCM82633A222222'' \<and> car2 \<in> set (vehiclesTable depot)
   \<and> v_license_plate car1 = ''AAA111'' \<and> car1 \<in> set (vehiclesTable depot)"
  by (simp add: createVehicle_def create_vehicle_conflict_def example_defs)

text \<open>
  C4, amended. If an existing vehicle has the VIN or the license plate of the input,
  \<open>createVehicle\<close> fails with a conflict error that names the field and the value, and
  writes nothing. Which one is decided by the first colliding row \<open>r\<close> in storage order:
  the VIN collision when \<open>r\<close> has the VIN of the input (so also when \<open>r\<close> collides on
  both), the license-plate collision otherwise. If no row collides, the call inserts the
  vehicle and returns the new row, with the id of the sequence and both timestamps at
  the clock reading of the call.
\<close>

theorem createVehicle_conflict_or_insert:
  "(vehiclesTable s = before @ r # rest
      \<and> cv_vin cv \<notin> v_vin ` set before
      \<and> cv_license_plate cv \<notin> v_license_plate ` set before
      \<and> (v_vin r = cv_vin cv \<or> v_license_plate r = cv_license_plate cv)
    \<longrightarrow> createVehicle uq now cv s
        = (Inl (Error (if v_vin r = cv_vin cv
                       then ''Vehicle with VIN '' @ cv_vin cv @ '' already exists''
                       else ''Vehicle with license plate '' @ cv_license_plate cv
                            @ '' already exists'')), s))
   \<and> (cv_vin cv \<in> v_vin ` set (vehiclesTable s)
      \<or> cv_license_plate cv \<in> v_license_plate ` set (vehiclesTable s)
    \<longrightarrow> createVehicle uq now cv s
          = (Inl (Error (''Vehicle with VIN '' @ cv_vin cv @ '' already exists'')), s)
        \<or> createVehicle uq now cv s
          = (Inl (Error (''Vehicle with license plate '' @ cv_license_plate cv
                         @ '' already exists'')), s))
   \<and> (cv_vin cw \<notin> v_vin ` set (vehiclesTable s)
      \<and> cv_license_plate cw \<notin> v_license_plate ` set (vehiclesTable s)
    \<longrightarrow> createVehicle uq now cw s
        = (Inr \<lparr>v_id = vehicles_seq s, v_make = cv_make cw, v_model = cv_model cw,
                 v_year = cv_year cw, v_vin = cv_vin cw,
                 v_license_plate = cv_license_plate cw,
                 v_created_at = now, v_updated_at = now\<rparr>,
           s\<lparr>vehiclesTable := vehiclesTable s @
                [\<lparr>v_id = vehicles_seq s, v_make = cv_make cw, v_model = cv_model cw,
                  v_year = cv_year cw, v_vin = cv_vin cw,
                  v_license_plate = cv_license_plate cw,
                  v_created_at = now, v_updated_at = now\<rparr>],
             vehicles_seq := vehicles_seq s + 1\<rparr>))"
  using createVehicle_first_collision [of s before r rest cv uq now]
    createVehicle_collision [of cv s uq now] createVehicle_fresh [of cw s uq now]
  by blast

text \<open>
  In the example database: an input with the VIN and the plate of vehicle 2, whose first
  colliding row is vehicle 2 (after vehicle 1), and a vehicle that is new.
\<close>

theorem createVehicle_conflict_or_insert_witness:
  "vehiclesTable depot = [car1] @ car2 # [car3]
   \<and> ''1HGCM82633A222222'' \<notin> v_vin ` set [car1]
   \<and> ''BBB222'' \<notin> v_license_plate ` set [car1]
   \<and> v_vin car2 = ''1HGCM82633A222222''
   \<and> createVehicle True 9000
        \<lparr>cv_make = ''Kia'', cv_model = ''Rio'', cv_year = 2019,
         cv_vin = ''1HGCM82633A222222'', cv_license_plate = ''BBB222''\<rparr> depot
      = (Inl (Error ''Vehicle with VIN 1HGCM82633A222222 already exists''), depot)
   \<and> ''1HGCM82633A444444'' \<notin> v_vin ` set (vehiclesTable depot)
   \<and> ''DDD444'' \<notin> v_license_plate ` set (vehiclesTable depot)
   \<and> createVehicle True 9000
        \<lparr>cv_make = ''Kia'', cv_model = ''Rio'', cv_year = 2019,
         cv_vin = ''1HGCM82633A444444'', cv_license_plate = ''DDD444''\<rparr> depot
      = (Inr \<lparr>v_id = 4, v_make = ''Kia'', v_model = ''Rio'', v_year = 2019,
               v_vin = ''1HGCM82633A444444'', v_license_plate = ''DDD444'',
               v_created_at = 9000, v_updated_at = 9000\<rparr>,
         depot\<lparr>vehiclesTable := [car1, car2, car3,
                  \<lparr>v_id = 4, v_make = ''Kia'', v_model = ''Rio'', v_year = 2019,
                    v_vin = ''1HGCM82633A444444'', v_license_plate = ''DDD444'',
                    v_created_at = 9000, v_updated_at = 9000\<rparr>],
               vehicles_seq := 5\<rparr>)"
proof -
  have h1: "vehiclesTable depot = [car1] @ car2 # [car3]"
    by (simp add: depot_def)
  have h2: "''1HGCM82633A222222'' \<notin> v_vin ` set [car1]"
    "''BBB222'' \<notin> v_license_plate ` set [car1]"
    "v_vin car2 = ''1HGCM82633A222222''"
    by (simp_all add: car1_def car2_def)
  have h3: "''1HGCM82633A444444'' \<notin> v_vin ` set (vehiclesTable depot)"
    "''DDD444'' \<notin> v_license_plate ` set (vehiclesTable depot)"
    by (simp_all add: example_defs)
  have d: "vehicles_seq depot = 4" "vehiclesTable depot @ [x] = [car1, car2, car3, x]" for x
    by (simp_all add: depot_def)
  note t = createVehicle_conflict_or_insert [where uq = True and now = 9000 and s = depot
      and before = "[car1]" and r = car2 and rest = "[car3]"
      and cv = "\<lparr>cv_make = ''Kia'', cv_model = ''Rio'', cv_year = 2019,
                 cv_vin = ''1HGCM82633A222222'', cv_license_plate = ''BBB222''\<rparr>"
      and cw = "\<lparr>cv_make = ''Kia'', cv_model = ''Rio'', cv_year = 2019,
                 cv_vin = ''1HGCM82633A444444'', cv_license_plate = ''DDD444''\<rparr>"]
  show ?thesis
    using t h1 h2 h3 by (simp add: d)
qed

section \<open>Creating an inspection\<close>

lemma createInspection_no_vehicle:
  assumes "ci_vehicle_id ci \<notin> v_id ` set (vehiclesTable s)"
  shows "createInspection now ci s
    = (Inl (Error (''Vehicle with id '' @ show_number (ci_vehicle_id ci)
                   @ '' does not exist'')), s)"
  using key_filter_empty [OF assms] by (simp add: createInspection_def)

lemma createInspection_no_inspector:
  assumes "ci_vehicle_id ci \<in> v_id ` set (vehiclesTable s)"
    and "ci_inspector_id ci \<notin> i_id ` set (inspectorsTable s)"
  shows "createInspection now ci s
    = (Inl (Error (''Inspector with id '' @ show_number (ci_inspector_id ci)
                   @ '' does not exist'')), s)"
  using key_filter_nonempty [OF assms(1)] key_filter_empty [OF assms(2)]
  by (simp add: createInspection_def)

lemma createInspection_inserts:
  assumes "ci_vehicle_id ci \<in> v_id ` set (vehiclesTable s)"
    and "ci_inspector_id ci \<in> i_id ` set (inspectorsTable s)"
  shows "\<exists>row. createInspection now ci s
      = (Inr row, s\<lparr>inspectionsTable := inspectionsTable s @ [row],
                     inspections_seq := inspections_seq s + 1\<rparr>)
    \<and> n_completed row = False
    \<and> (ci_notes ci = Undefined \<longrightarrow> n_notes row = None)
    \<and> (\<forall>v. ci_notes ci = Given v \<and> v \<noteq> [] \<longrightarrow> n_notes row = Some v)
    \<and> n_id row = inspections_seq s
    \<and> n_vehicle_id row = ci_vehicle_id ci \<and> n_inspector_id row = ci_inspector_id ci
    \<and> n_inspection_date row = ci_inspection_date ci
    \<and> n_created_at row = now \<and> n_updated_at row = now"
  using key_filter_nonempty [OF assms(1)] key_filter_nonempty [OF assms(2)]
  by (auto simp: createInspection_def insert_inspection_def or_null_def Let_def)

text \<open>
  C5. \<open>createInspection\<close> fails with the vehicle-not-found error when no vehicle has the
  \<open>vehicle_id\<close> of the input, whatever the \<open>inspector_id\<close> is; it fails with the
  inspector-not-found error when the vehicle exists and no inspector has the
  \<open>inspector_id\<close>; otherwise it appends one inspection with \<open>completed = false\<close>, whatever
  else the input carries (the input may be any extension of the record of the four
  fields the handler reads), with \<open>notes = null\<close> when the notes are omitted and the
  given notes when they are a non-empty string.
\<close>

theorem createInspection_validates_then_inserts:
  "(ci_vehicle_id ci \<notin> v_id ` set (vehiclesTable s)
    \<longrightarrow> createInspection now ci s
        = (Inl (Error (''Vehicle with id '' @ show_number (ci_vehicle_id ci)
                       @ '' does not exist'')), s))
   \<and> (ci_vehicle_id cj \<in> v_id ` set (vehiclesTable s)
      \<and> ci_inspector_id cj \<notin> i_id ` set (inspectorsTable s)
    \<longrightarrow> createInspection now cj s
        = (Inl (Error (''Inspector with id '' @ show_number (ci_inspector_id cj)
                       @ '' does not exist'')), s))
   \<and> (ci_vehicle_id ck \<in> v_id ` set (vehiclesTable s)
      \<and> ci_inspector_id ck \<in> i_id ` set (inspectorsTable s)
    \<longrightarrow> (\<exists>row. createInspection now ck s
            = (Inr row, s\<lparr>inspectionsTable := inspectionsTable s @ [row],
                           inspections_seq := inspections_seq s + 1\<rparr>)
          \<and> n_completed row = False
          \<and> (ci_notes ck = Undefined \<longrightarrow> n_notes row = None)
          \<and> (\<forall>v. ci_notes ck = Given v \<and> v \<noteq> [] \<longrightarrow> n_notes row = Some v)
          \<and> n_id row = inspections_seq s
          \<and> n_vehicle_id row = ci_vehicle_id ck \<and> n_inspector_id row = ci_inspector_id ck
          \<and> n_inspection_date row = ci_inspection_date ck
          \<and> n_created_at row = now \<and> n_updated_at row = now))"
  using createInspection_no_vehicle [of ci s now]
    createInspection_no_inspector [of cj s now] createInspection_inserts [of ck s now]
  by blast

text \<open>
  In the example database: both ids unknown (the vehicle error is the one raised), an
  unknown inspector for vehicle 1, and a valid input without notes that tries to set
  \<open>completed\<close>.
\<close>

theorem createInspection_validates_then_inserts_witness:
  "99 \<notin> v_id ` set (vehiclesTable depot) \<and> 88 \<notin> i_id ` set (inspectorsTable depot)
   \<and> createInspection 9000
        \<lparr>ci_vehicle_id = 99, ci_inspector_id = 88, ci_inspection_date = 30000,
         ci_notes = Given ''Both invalid test''\<rparr> depot
      = (Inl (Error ''Vehicle with id 99 does not exist''), depot)
   \<and> 1 \<in> v_id ` set (vehiclesTable depot)
   \<and> createInspection 9000
        \<lparr>ci_vehicle_id = 1, ci_inspector_id = 88, ci_inspection_date = 30000,
         ci_notes = Undefined\<rparr> depot
      = (Inl (Error ''Inspector with id 88 does not exist''), depot)
   \<and> 3 \<in> v_id ` set (vehiclesTable depot) \<and> 2 \<in> i_id ` set (inspectorsTable depot)
   \<and> createInspection 9000
        \<lparr>ci_vehicle_id = 3, ci_inspector_id = 2, ci_inspection_date = 30000,
         ci_notes = Undefined, ci_completed = True\<rparr> depot
      = (Inr \<lparr>n_id = 3, n_vehicle_id = 3, n_inspector_id = 2, n_inspection_date = 30000,
               n_completed = False, n_notes = None,
               n_created_at = 9000, n_updated_at = 9000\<rparr>,
         depot\<lparr>inspectionsTable := [visit1, visit2,
                  \<lparr>n_id = 3, n_vehicle_id = 3, n_inspector_id = 2,
                    n_inspection_date = 30000, n_completed = False, n_notes = None,
                    n_created_at = 9000, n_updated_at = 9000\<rparr>],
               inspections_seq := 4\<rparr>)"
proof -
  have h: "99 \<notin> v_id ` set (vehiclesTable depot)" "88 \<notin> i_id ` set (inspectorsTable depot)"
    "1 \<in> v_id ` set (vehiclesTable depot)" "3 \<in> v_id ` set (vehiclesTable depot)"
    "2 \<in> i_id ` set (inspectorsTable depot)"
    by (simp_all add: example_defs)
  have n: "show_number 99 = ''99''" "show_number 88 = ''88''"
    by (simp_all add: show_number_def digits.simps digit_def)
  note t = createInspection_validates_then_inserts [where now = 9000 and s = depot
      and ci = "\<lparr>ci_vehicle_id = 99, ci_inspector_id = 88, ci_inspection_date = 30000,
                 ci_notes = Given ''Both invalid test''\<rparr>"
      and cj = "\<lparr>ci_vehicle_id = 1, ci_inspector_id = 88, ci_inspection_date = 30000,
                 ci_notes = Undefined\<rparr>"
      and ck = "\<lparr>ci_vehicle_id = 3, ci_inspector_id = 2, ci_inspection_date = 30000,
                 ci_notes = Undefined, ci_completed = True\<rparr>"]
  have d: "inspections_seq depot = 3" "inspectionsTable depot @ [x] = [visit1, visit2, x]" for x
    by (simp_all add: depot_def)
  from t h obtain row where
    row: "createInspection 9000
        \<lparr>ci_vehicle_id = 3, ci_inspector_id = 2, ci_inspection_date = 30000,
         ci_notes = Undefined, ci_completed = True\<rparr> depot
      = (Inr row, depot\<lparr>inspectionsTable := [visit1, visit2, row], inspections_seq := 4\<rparr>)"
    and "n_completed row = False" "n_notes row = None" "n_id row = 3"
      "n_vehicle_id row = 3" "n_inspector_id row = 2" "n_inspection_date row = 30000"
      "n_created_at row = 9000" "n_updated_at row = 9000"
    by (auto simp: d)
  then have "row = \<lparr>n_id = 3, n_vehicle_id = 3, n_inspector_id = 2, n_inspection_date = 30000,
               n_completed = False, n_notes = None,
               n_created_at = 9000, n_updated_at = 9000\<rparr>"
    by simp
  with row t h show ?thesis
    by (simp add: n)
qed

section \<open>Creating inspection items\<close>

lemma createInspectionItems_no_inspection:
  assumes "cs_inspection_id cs \<notin> n_id ` set (inspectionsTable s)"
  shows "createInspectionItems now cs s
    = (Inl (Error (''Inspection with id '' @ show_number (cs_inspection_id cs)
                   @ '' not found'')), s)"
  using key_filter_empty [OF assms] by (simp add: createInspectionItems_def)

lemma createInspectionItems_empty:
  assumes "cs_inspection_id cs \<in> n_id ` set (inspectionsTable s)" and "cs_items cs = []"
  shows "createInspectionItems now cs s = (Inr [], s)"
  using key_filter_nonempty [OF assms(1)] assms(2) by (simp add: createInspectionItems_def)

lemma insert_inspection_items_rows:
  assumes "insert_inspection_items now (itemsToInsert cs) s = (rows, s')"
  shows "s' = s\<lparr>inspectionItemsTable := inspectionItemsTable s @ rows,
                 inspection_items_seq := inspection_items_seq s + int (length rows)\<rparr>"
    and "length rows = length (cs_items cs)"
    and "list_all2 (\<lambda>item row.
            t_inspection_id row = cs_inspection_id cs
            \<and> t_item_name row = it_item_name item \<and> t_status row = it_status item
            \<and> (it_comments item = Undefined \<longrightarrow> t_comments row = None)
            \<and> (it_comments item = Null \<longrightarrow> t_comments row = None)
            \<and> (\<forall>v. it_comments item = Given v \<and> v \<noteq> [] \<longrightarrow> t_comments row = Some v)
            \<and> t_created_at row = now \<and> t_updated_at row = now)
          (cs_items cs) rows"
    and "map t_id rows = map (\<lambda>k. inspection_items_seq s + int k) [0..<length rows]"
proof -
  from assms have rows: "rows = map (\<lambda>(k, v). \<lparr>t_id = inspection_items_seq s + int k,
                                 t_inspection_id = iv_inspection_id v,
                                 t_item_name = iv_item_name v, t_status = iv_status v,
                                 t_comments = iv_comments v,
                                 t_created_at = now, t_updated_at = now\<rparr>)
                  (enumerate 0 (itemsToInsert cs))"
    and s': "s' = s\<lparr>inspectionItemsTable := inspectionItemsTable s @ rows,
                 inspection_items_seq := inspection_items_seq s + int (length (itemsToInsert cs))\<rparr>"
    by (auto simp: insert_inspection_items_def Let_def)
  show len: "length rows = length (cs_items cs)"
    by (simp add: rows itemsToInsert_def)
  show "s' = s\<lparr>inspectionItemsTable := inspectionItemsTable s @ rows,
                 inspection_items_seq := inspection_items_seq s + int (length rows)\<rparr>"
    using s' len by (simp add: itemsToInsert_def)
  show "list_all2 (\<lambda>item row.
            t_inspection_id row = cs_inspection_id cs
            \<and> t_item_name row = it_item_name item \<and> t_status row = it_status item
            \<and> (it_comments item = Undefined \<longrightarrow> t_comments row = None)
            \<and> (it_comments item = Null \<longrightarrow> t_comments row = None)
            \<and> (\<forall>v. it_comments item = Given v \<and> v \<noteq> [] \<longrightarrow> t_comments row = Some v)
            \<and> t_created_at row = now \<and> t_updated_at row = now)
          (cs_items cs) rows"
    by (simp add: list_all2_conv_all_nth rows itemsToInsert_def nth_enumerate_eq or_null_def)
  show "map t_id rows = map (\<lambda>k. inspection_items_seq s + int k) [0..<length rows]"
    by (rule nth_equalityI) (simp_all add: rows nth_enumerate_eq)
qed

lemma createInspectionItems_inserts:
  assumes "cs_inspection_id cs \<in> n_id ` set (inspectionsTable s)" and "cs_items cs \<noteq> []"
  shows "\<exists>rows. createInspectionItems now cs s
        = (Inr rows, s\<lparr>inspectionItemsTable := inspectionItemsTable s @ rows,
                        inspection_items_seq := inspection_items_seq s + int (length rows)\<rparr>)
      \<and> length rows = length (cs_items cs)
      \<and> list_all2 (\<lambda>item row.
            t_inspection_id row = cs_inspection_id cs
            \<and> t_item_name row = it_item_name item \<and> t_status row = it_status item
            \<and> (it_comments item = Undefined \<longrightarrow> t_comments row = None)
            \<and> (it_comments item = Null \<longrightarrow> t_comments row = None)
            \<and> (\<forall>v. it_comments item = Given v \<and> v \<noteq> [] \<longrightarrow> t_comments row = Some v)
            \<and> t_created_at row = now \<and> t_updated_at row = now)
          (cs_items cs) rows
      \<and> map t_id rows = map (\<lambda>k. inspection_items_seq s + int k) [0..<length rows]"
proof -
  obtain rows s' where ins: "insert_inspection_items now (itemsToInsert cs) s = (rows, s')"
    by (cases "insert_inspection_items now (itemsToInsert cs) s")
  have "createInspectionItems now cs s = (Inr rows, s')"
    using key_filter_nonempty [OF assms(1)] assms(2) ins
    by (simp add: createInspectionItems_def)
  with insert_inspection_items_rows [OF ins] show ?thesis
    by blast
qed

text \<open>
  C6. \<open>createInspectionItems\<close> fails and writes nothing when no inspection has the
  \<open>inspection_id\<close> of the input, whatever the items are (an empty array too); with an
  existing inspection and an empty array it returns the empty list and writes nothing;
  otherwise one statement appends exactly one row per item, in the order of the items,
  each with the inspection id of the input, the name and the status of its item, and
  \<open>comments = null\<close> when the comments are omitted or \<open>null\<close> (the given comments when
  they are a non-empty string), and the call returns these rows.
\<close>

theorem createInspectionItems_checks_then_bulk_inserts:
  "(cs_inspection_id cs \<notin> n_id ` set (inspectionsTable s)
    \<longrightarrow> createInspectionItems now cs s
        = (Inl (Error (''Inspection with id '' @ show_number (cs_inspection_id cs)
                       @ '' not found'')), s))
   \<and> (cs_inspection_id ct \<in> n_id ` set (inspectionsTable s) \<and> cs_items ct = []
    \<longrightarrow> createInspectionItems now ct s = (Inr [], s))
   \<and> (cs_inspection_id cu \<in> n_id ` set (inspectionsTable s) \<and> cs_items cu \<noteq> []
    \<longrightarrow> (\<exists>rows. createInspectionItems now cu s
            = (Inr rows, s\<lparr>inspectionItemsTable := inspectionItemsTable s @ rows,
                            inspection_items_seq :=
                              inspection_items_seq s + int (length rows)\<rparr>)
          \<and> length rows = length (cs_items cu)
          \<and> list_all2 (\<lambda>item row.
                t_inspection_id row = cs_inspection_id cu
                \<and> t_item_name row = it_item_name item \<and> t_status row = it_status item
                \<and> (it_comments item = Undefined \<longrightarrow> t_comments row = None)
                \<and> (it_comments item = Null \<longrightarrow> t_comments row = None)
                \<and> (\<forall>v. it_comments item = Given v \<and> v \<noteq> [] \<longrightarrow> t_comments row = Some v)
                \<and> t_created_at row = now \<and> t_updated_at row = now)
              (cs_items cu) rows
          \<and> map t_id rows
              = map (\<lambda>k. inspection_items_seq s + int k) [0..<length rows]))"
  using createInspectionItems_no_inspection [of cs s now]
    createInspectionItems_empty [of ct s now] createInspectionItems_inserts [of cu s now]
  by blast

text \<open>
  In the example database: an empty array for the unknown inspection 99, an empty array
  for inspection 2, and two items for inspection 2, the first without comments.
\<close>

theorem createInspectionItems_checks_then_bulk_inserts_witness:
  "99 \<notin> n_id ` set (inspectionsTable depot)
   \<and> createInspectionItems 9000 \<lparr>cs_inspection_id = 99, cs_items = []\<rparr> depot
      = (Inl (Error ''Inspection with id 99 not found''), depot)
   \<and> 2 \<in> n_id ` set (inspectionsTable depot)
   \<and> createInspectionItems 9000 \<lparr>cs_inspection_id = 2, cs_items = []\<rparr> depot
      = (Inr [], depot)
   \<and> createInspectionItems 9000
        \<lparr>cs_inspection_id = 2,
         cs_items = [\<lparr>it_item_name = ''Wipers'', it_status = Pass, it_comments = Undefined\<rparr>,
                     \<lparr>it_item_name = ''Lights'', it_status = Fail,
                      it_comments = Given ''Left headlight out''\<rparr>]\<rparr> depot
      = (Inr [\<lparr>t_id = 2, t_inspection_id = 2, t_item_name = ''Wipers'', t_status = Pass,
                t_comments = None, t_created_at = 9000, t_updated_at = 9000\<rparr>,
              \<lparr>t_id = 3, t_inspection_id = 2, t_item_name = ''Lights'', t_status = Fail,
                t_comments = Some ''Left headlight out'',
                t_created_at = 9000, t_updated_at = 9000\<rparr>],
         depot\<lparr>inspectionItemsTable :=
                 [brakes,
                  \<lparr>t_id = 2, t_inspection_id = 2, t_item_name = ''Wipers'', t_status = Pass,
                    t_comments = None, t_created_at = 9000, t_updated_at = 9000\<rparr>,
                  \<lparr>t_id = 3, t_inspection_id = 2, t_item_name = ''Lights'', t_status = Fail,
                    t_comments = Some ''Left headlight out'',
                    t_created_at = 9000, t_updated_at = 9000\<rparr>],
               inspection_items_seq := 4\<rparr>)
   \<and> (\<exists>rows. createInspectionItems 9000
        \<lparr>cs_inspection_id = 2,
         cs_items = [\<lparr>it_item_name = ''Wipers'', it_status = Pass, it_comments = Undefined\<rparr>,
                     \<lparr>it_item_name = ''Lights'', it_status = Fail,
                      it_comments = Given ''Left headlight out''\<rparr>]\<rparr> depot
        = (Inr rows, depot\<lparr>inspectionItemsTable := inspectionItemsTable depot @ rows,
                            inspection_items_seq :=
                              inspection_items_seq depot + int (length rows)\<rparr>)
        \<and> length rows = 2)"
proof -
  have h: "99 \<notin> n_id ` set (inspectionsTable depot)" "2 \<in> n_id ` set (inspectionsTable depot)"
    by (simp_all add: example_defs)
  have n: "show_number 99 = ''99''"
    by (simp add: show_number_def digits.simps digit_def)
  have e: "createInspectionItems 9000
        \<lparr>cs_inspection_id = 2,
         cs_items = [\<lparr>it_item_name = ''Wipers'', it_status = Pass, it_comments = Undefined\<rparr>,
                     \<lparr>it_item_name = ''Lights'', it_status = Fail,
                      it_comments = Given ''Left headlight out''\<rparr>]\<rparr> depot
      = (Inr [\<lparr>t_id = 2, t_inspection_id = 2, t_item_name = ''Wipers'', t_status = Pass,
                t_comments = None, t_created_at = 9000, t_updated_at = 9000\<rparr>,
              \<lparr>t_id = 3, t_inspection_id = 2, t_item_name = ''Lights'', t_status = Fail,
                t_comments = Some ''Left headlight out'',
                t_created_at = 9000, t_updated_at = 9000\<rparr>],
         depot\<lparr>inspectionItemsTable :=
                 [brakes,
                  \<lparr>t_id = 2, t_inspection_id = 2, t_item_name = ''Wipers'', t_status = Pass,
                    t_comments = None, t_created_at = 9000, t_updated_at = 9000\<rparr>,
                  \<lparr>t_id = 3, t_inspection_id = 2, t_item_name = ''Lights'', t_status = Fail,
                    t_comments = Some ''Left headlight out'',
                    t_created_at = 9000, t_updated_at = 9000\<rparr>],
               inspection_items_seq := 4\<rparr>)"
    by (simp add: createInspectionItems_def insert_inspection_items_def itemsToInsert_def
        or_null_def enumerate_eq_zip upt_rec Let_def example_defs)
  note t = createInspectionItems_checks_then_bulk_inserts [where now = 9000 and s = depot
      and cs = "\<lparr>cs_inspection_id = 99, cs_items = []\<rparr>"
      and ct = "\<lparr>cs_inspection_id = 2, cs_items = []\<rparr>"
      and cu = "\<lparr>cs_inspection_id = 2,
         cs_items = [\<lparr>it_item_name = ''Wipers'', it_status = Pass, it_comments = Undefined\<rparr>,
                     \<lparr>it_item_name = ''Lights'', it_status = Fail,
                      it_comments = Given ''Left headlight out''\<rparr>]\<rparr>"]
  from t h have "\<exists>rows. createInspectionItems 9000
        \<lparr>cs_inspection_id = 2,
         cs_items = [\<lparr>it_item_name = ''Wipers'', it_status = Pass, it_comments = Undefined\<rparr>,
                     \<lparr>it_item_name = ''Lights'', it_status = Fail,
                      it_comments = Given ''Left headlight out''\<rparr>]\<rparr> depot
        = (Inr rows, depot\<lparr>inspectionItemsTable := inspectionItemsTable depot @ rows,
                            inspection_items_seq :=
                              inspection_items_seq depot + int (length rows)\<rparr>)
        \<and> length rows = 2"
    by auto
  with t h e show ?thesis
    by (simp add: n)
qed

section \<open>Deleting an inspector\<close>

lemma digit_value_digit: "digit_value (digit n) = n mod 10"
proof -
  define m where "m = n mod 10"
  then have "m < 10" by simp
  then have "m \<in> set [0..<10]" by simp
  then have "of_char (''0123456789'' ! m) - 48 = m"
    by (auto simp: upt_rec)
  then show ?thesis
    by (simp add: digit_def digit_value_def m_def)
qed

lemma decimal_value_digits: "decimal_value (digits n) = n"
proof (induction n rule: digits.induct)
  case (1 n)
  show ?case
  proof (cases "n < 10")
    case True
    then show ?thesis
      by (simp add: digits.simps [of n] decimal_value_def digit_value_digit)
  next
    case False
    with 1 have "decimal_value (digits (n div 10)) = n div 10" by simp
    with False show ?thesis
      by (simp add: digits.simps [of n] decimal_value_def digit_value_digit)
  qed
qed

lemma decimal_value_show_number: "decimal_value (show_number (int n)) = n"
  by (simp add: show_number_def decimal_value_digits)

lemma length_filter_count_list: "length (filter (\<lambda>n. f n = k) xs) = count_list (map f xs) k"
  by (induction xs) auto

lemma deleteInspector_unknown:
  assumes "dp \<notin> i_id ` set (inspectorsTable s)"
  shows "deleteInspector dp s
    = (Inl (Error (''Inspector with id '' @ show_number dp @ '' not found'')), s)"
  using key_filter_empty [OF assms] by (simp add: deleteInspector_def)

lemma deleteInspector_referenced:
  assumes "dq \<in> i_id ` set (inspectorsTable s)"
    and "1 \<le> count_list (map n_inspector_id (inspectionsTable s)) dq"
  shows "deleteInspector dq s
      = (Inl (Error (''Cannot delete inspector with id '' @ show_number dq
                     @ '' because they have ''
                     @ show_number (int (count_list (map n_inspector_id (inspectionsTable s)) dq))
                     @ '' associated inspection(s)'')), s)"
proof -
  from assms(2) have "filter (\<lambda>n. n_inspector_id n = dq) (inspectionsTable s) \<noteq> []"
    by (auto simp: length_filter_count_list [symmetric])
  with key_filter_nonempty [OF assms(1)] show ?thesis
    by (simp add: deleteInspector_def length_filter_count_list Let_def)
qed

lemma deleteInspector_free:
  assumes "dr \<in> i_id ` set (inspectorsTable s)"
    and "count_list (map n_inspector_id (inspectionsTable s)) dr = 0"
  shows "deleteInspector dr s
      = (Inr True, s\<lparr>inspectorsTable := filter (\<lambda>r. i_id r \<noteq> dr) (inspectorsTable s)\<rparr>)"
  using key_filter_nonempty [OF assms(1)] assms(2)
  by (simp add: deleteInspector_def length_filter_count_list [symmetric] Let_def)

text \<open>
  C7. \<open>deleteInspector\<close> fails with the not-found error when no inspector has the id.
  When the inspector exists and \<open>N \<ge> 1\<close> inspections refer to it, the call fails, the
  state (the inspector with it) stays, and the message carries the decimal numeral of
  exactly \<open>N\<close>. When no inspection refers to it, the rows with the id are removed from
  the inspectors, every other row stays, and the call returns \<open>{success: true}\<close>.
\<close>

theorem deleteInspector_guards_references:
  "(dp \<notin> i_id ` set (inspectorsTable s)
    \<longrightarrow> deleteInspector dp s
        = (Inl (Error (''Inspector with id '' @ show_number dp @ '' not found'')), s))
   \<and> (dq \<in> i_id ` set (inspectorsTable s)
      \<and> N = count_list (map n_inspector_id (inspectionsTable s)) dq \<and> 1 \<le> N
    \<longrightarrow> (\<exists>numeral. deleteInspector dq s
            = (Inl (Error (''Cannot delete inspector with id '' @ show_number dq
                           @ '' because they have '' @ numeral
                           @ '' associated inspection(s)'')), s)
          \<and> numeral = show_number (int N) \<and> decimal_value numeral = N))
   \<and> (dr \<in> i_id ` set (inspectorsTable s)
      \<and> count_list (map n_inspector_id (inspectionsTable s)) dr = 0
    \<longrightarrow> deleteInspector dr s
          = (Inr True, s\<lparr>inspectorsTable := filter (\<lambda>r. i_id r \<noteq> dr) (inspectorsTable s)\<rparr>)
        \<and> dr \<notin> i_id ` set (inspectorsTable (snd (deleteInspector dr s))))"
proof (intro conjI impI)
  assume "dp \<notin> i_id ` set (inspectorsTable s)"
  then show "deleteInspector dp s
        = (Inl (Error (''Inspector with id '' @ show_number dp @ '' not found'')), s)"
    by (rule deleteInspector_unknown)
next
  assume "dq \<in> i_id ` set (inspectorsTable s)
      \<and> N = count_list (map n_inspector_id (inspectionsTable s)) dq \<and> 1 \<le> N"
  then show "\<exists>numeral. deleteInspector dq s
            = (Inl (Error (''Cannot delete inspector with id '' @ show_number dq
                           @ '' because they have '' @ numeral
                           @ '' associated inspection(s)'')), s)
          \<and> numeral = show_number (int N) \<and> decimal_value numeral = N"
    using deleteInspector_referenced [of dq s] decimal_value_show_number [of N]
    by auto
next
  assume a: "dr \<in> i_id ` set (inspectorsTable s)
      \<and> count_list (map n_inspector_id (inspectionsTable s)) dr = 0"
  then show "deleteInspector dr s
      = (Inr True, s\<lparr>inspectorsTable := filter (\<lambda>r. i_id r \<noteq> dr) (inspectorsTable s)\<rparr>)"
    by (simp add: deleteInspector_free)
  with a show "dr \<notin> i_id ` set (inspectorsTable (snd (deleteInspector dr s)))"
    by auto
qed

text \<open>
  In the example database: no inspector 99; inspector 1 with its two inspections;
  inspector 2 with none.
\<close>

theorem deleteInspector_guards_references_witness:
  "99 \<notin> i_id ` set (inspectorsTable depot)
   \<and> deleteInspector 99 depot = (Inl (Error ''Inspector with id 99 not found''), depot)
   \<and> 1 \<in> i_id ` set (inspectorsTable depot)
   \<and> count_list (map n_inspector_id (inspectionsTable depot)) 1 = 2
   \<and> deleteInspector 1 depot
      = (Inl (Error ''Cannot delete inspector with id 1 because they have 2 associated inspection(s)''),
         depot)
   \<and> 2 \<in> i_id ` set (inspectorsTable depot)
   \<and> count_list (map n_inspector_id (inspectionsTable depot)) 2 = 0
   \<and> deleteInspector 2 depot = (Inr True, depot\<lparr>inspectorsTable := [john]\<rparr>)"
proof -
  have h: "99 \<notin> i_id ` set (inspectorsTable depot)" "1 \<in> i_id ` set (inspectorsTable depot)"
    "count_list (map n_inspector_id (inspectionsTable depot)) 1 = 2"
    "2 \<in> i_id ` set (inspectorsTable depot)"
    "count_list (map n_inspector_id (inspectionsTable depot)) 2 = 0"
    by (simp_all add: example_defs)
  have n: "show_number 99 = ''99''" "show_number 1 = ''1''" "show_number 2 = ''2''"
    by (simp_all add: show_number_def digits.simps digit_def)
  have f: "filter (\<lambda>r. i_id r \<noteq> 2) (inspectorsTable depot) = [john]"
    by (simp add: example_defs)
  note t = deleteInspector_guards_references [where s = depot and dp = 99 and dq = 1
      and N = 2 and dr = 2]
  show ?thesis
    using t h by (simp add: n f)
qed

section \<open>Listing vehicles and inspectors\<close>

text \<open>
  C9. \<open>getVehicles\<close> returns the vehicle rows, each exactly as often as the table holds
  it, newest \<open>created_at\<close> first; \<open>getInspectors\<close> returns the inspector rows, each
  exactly as often as the table holds it, by ascending name in the order of the
  collation.
\<close>

theorem listings_complete_and_ordered:
  "mset (getVehicles s) = mset (vehiclesTable s)
   \<and> sorted_wrt (\<lambda>a b. v_created_at b \<le> v_created_at a) (getVehicles s)
   \<and> mset (getInspectors collate s) = mset (inspectorsTable s)
   \<and> sorted_wrt (\<lambda>a b. collate (i_name a) \<le> collate (i_name b)) (getInspectors collate s)"
proof (intro conjI)
  show "mset (getVehicles s) = mset (vehiclesTable s)"
    by (simp add: getVehicles_def)
  have "sorted (map (\<lambda>r. - v_created_at r) (getVehicles s))"
    unfolding getVehicles_def by (rule sorted_sort_key)
  then show "sorted_wrt (\<lambda>a b. v_created_at b \<le> v_created_at a) (getVehicles s)"
    by (simp add: sorted_map)
  show "mset (getInspectors collate s) = mset (inspectorsTable s)"
    by (simp add: getInspectors_def)
  have "sorted (map (\<lambda>r. collate (i_name r)) (getInspectors collate s))"
    unfolding getInspectors_def by (rule sorted_sort_key)
  then show "sorted_wrt (\<lambda>a b. collate (i_name a) \<le> collate (i_name b))
      (getInspectors collate s)"
    by (simp add: sorted_map)
qed

text \<open>
  The two listings of the example database, the names compared character by character.
\<close>

lemma listings_example:
  "getVehicles depot = [car3, car2, car1]
   \<and> getInspectors (\<lambda>name. name) depot = [alice, john]"
  by (simp add: getVehicles_def getInspectors_def example_defs)

section \<open>Empty strings at creation\<close>

text \<open>
  C10. Both create handlers default a nullable text with \<open>x || null\<close>, under which the
  empty string is as falsy as an omitted field: \<open>createInspection\<close> with \<open>notes = ""\<close>
  does what it does with the notes omitted, and \<open>createInspectionItems\<close> with items whose
  \<open>comments\<close> are \<open>""\<close> does what it does with the comments omitted, in every state. In
  the example database the rows they insert hold \<open>null\<close>.
\<close>

theorem empty_string_created_as_null:
  "createInspection now (ci\<lparr>ci_notes := Given ''''\<rparr>) s
     = createInspection now (ci\<lparr>ci_notes := Undefined\<rparr>) s
   \<and> createInspectionItems now
       \<lparr>cs_inspection_id = k, cs_items = map (\<lambda>item. item\<lparr>it_comments := Given ''''\<rparr>) items\<rparr> s
     = createInspectionItems now
       \<lparr>cs_inspection_id = k, cs_items = map (\<lambda>item. item\<lparr>it_comments := Undefined\<rparr>) items\<rparr> s
   \<and> createInspection 9000
        \<lparr>ci_vehicle_id = 3, ci_inspector_id = 2, ci_inspection_date = 30000,
         ci_notes = Given ''''\<rparr> depot
     = (Inr \<lparr>n_id = 3, n_vehicle_id = 3, n_inspector_id = 2, n_inspection_date = 30000,
              n_completed = False, n_notes = None,
              n_created_at = 9000, n_updated_at = 9000\<rparr>,
        depot\<lparr>inspectionsTable := [visit1, visit2,
                 \<lparr>n_id = 3, n_vehicle_id = 3, n_inspector_id = 2,
                   n_inspection_date = 30000, n_completed = False, n_notes = None,
                   n_created_at = 9000, n_updated_at = 9000\<rparr>],
              inspections_seq := 4\<rparr>)
   \<and> createInspectionItems 9000
        \<lparr>cs_inspection_id = 2,
         cs_items = [\<lparr>it_item_name = ''Horn'', it_status = Pass, it_comments = Given ''''\<rparr>]\<rparr>
        depot
     = (Inr [\<lparr>t_id = 2, t_inspection_id = 2, t_item_name = ''Horn'', t_status = Pass,
               t_comments = None, t_created_at = 9000, t_updated_at = 9000\<rparr>],
        depot\<lparr>inspectionItemsTable :=
                [brakes,
                 \<lparr>t_id = 2, t_inspection_id = 2, t_item_name = ''Horn'', t_status = Pass,
                   t_comments = None, t_created_at = 9000, t_updated_at = 9000\<rparr>],
              inspection_items_seq := 3\<rparr>)"
proof (intro conjI)
  show "createInspection now (ci\<lparr>ci_notes := Given ''''\<rparr>) s
     = createInspection now (ci\<lparr>ci_notes := Undefined\<rparr>) s"
    by (simp add: createInspection_def or_null_def)
  have "itemsToInsert
       \<lparr>cs_inspection_id = k, cs_items = map (\<lambda>item. item\<lparr>it_comments := Given ''''\<rparr>) items\<rparr>
     = itemsToInsert
       \<lparr>cs_inspection_id = k, cs_items = map (\<lambda>item. item\<lparr>it_comments := Undefined\<rparr>) items\<rparr>"
    by (simp add: itemsToInsert_def or_null_def)
  then show "createInspectionItems now
       \<lparr>cs_inspection_id = k, cs_items = map (\<lambda>item. item\<lparr>it_comments := Given ''''\<rparr>) items\<rparr> s
     = createInspectionItems now
       \<lparr>cs_inspection_id = k, cs_items = map (\<lambda>item. item\<lparr>it_comments := Undefined\<rparr>) items\<rparr> s"
    by (simp add: createInspectionItems_def)
  show "createInspection 9000
        \<lparr>ci_vehicle_id = 3, ci_inspector_id = 2, ci_inspection_date = 30000,
         ci_notes = Given ''''\<rparr> depot
     = (Inr \<lparr>n_id = 3, n_vehicle_id = 3, n_inspector_id = 2, n_inspection_date = 30000,
              n_completed = False, n_notes = None,
              n_created_at = 9000, n_updated_at = 9000\<rparr>,
        depot\<lparr>inspectionsTable := [visit1, visit2,
                 \<lparr>n_id = 3, n_vehicle_id = 3, n_inspector_id = 2,
                   n_inspection_date = 30000, n_completed = False, n_notes = None,
                   n_created_at = 9000, n_updated_at = 9000\<rparr>],
              inspections_seq := 4\<rparr>)"
    by (simp add: createInspection_def insert_inspection_def or_null_def Let_def example_defs)
  show "createInspectionItems 9000
        \<lparr>cs_inspection_id = 2,
         cs_items = [\<lparr>it_item_name = ''Horn'', it_status = Pass, it_comments = Given ''''\<rparr>]\<rparr>
        depot
     = (Inr [\<lparr>t_id = 2, t_inspection_id = 2, t_item_name = ''Horn'', t_status = Pass,
               t_comments = None, t_created_at = 9000, t_updated_at = 9000\<rparr>],
        depot\<lparr>inspectionItemsTable :=
                [brakes,
                 \<lparr>t_id = 2, t_inspection_id = 2, t_item_name = ''Horn'', t_status = Pass,
                   t_comments = None, t_created_at = 9000, t_updated_at = 9000\<rparr>],
              inspection_items_seq := 3\<rparr>)"
    by (simp add: createInspectionItems_def insert_inspection_items_def itemsToInsert_def
        or_null_def enumerate_eq_zip upt_rec Let_def example_defs)
qed

section \<open>The inspection report\<close>

lemma unique_key_row:
  "distinct (map f xs) \<Longrightarrow> k \<in> f ` set xs \<Longrightarrow> \<exists>x. filter (\<lambda>q. k = f q) xs = [x]"
proof (induction xs)
  case Nil
  then show ?case by simp
next
  case (Cons a xs)
  show ?case
  proof (cases "k = f a")
    case True
    with Cons.prems have "filter (\<lambda>q. k = f q) xs = []"
      by (auto simp: filter_empty_conv)
    with True show ?thesis by simp
  next
    case False
    with Cons show ?thesis by auto
  qed
qed

lemma joined_fst:
  assumes "references_ok s"
  shows "map fst (inspections_joined s) = inspectionsTable s"
proof -
  have "\<forall>n \<in> set ns. n_vehicle_id n \<in> v_id ` set (vehiclesTable s)
          \<and> n_inspector_id n \<in> i_id ` set (inspectorsTable s)
    \<Longrightarrow> map fst (concat (map (\<lambda>n.
       concat (map (\<lambda>v.
         map (\<lambda>i. (n, v, i)) (filter (\<lambda>i. n_inspector_id n = i_id i) (inspectorsTable s)))
         (filter (\<lambda>v. n_vehicle_id n = v_id v) (vehiclesTable s)))) ns)) = ns" for ns
  proof (induction ns)
    case Nil
    then show ?case by simp
  next
    case (Cons n ns)
    from Cons.prems assms obtain v where v: "filter (\<lambda>v. n_vehicle_id n = v_id v) (vehiclesTable s) = [v]"
      using unique_key_row [of v_id "vehiclesTable s" "n_vehicle_id n"]
      by (auto simp: references_ok_def)
    from Cons.prems assms obtain i where i: "filter (\<lambda>i. n_inspector_id n = i_id i) (inspectorsTable s) = [i]"
      using unique_key_row [of i_id "inspectorsTable s" "n_inspector_id n"]
      by (auto simp: references_ok_def)
    from Cons show ?case by (simp add: v i)
  qed
  moreover from assms have "\<forall>n \<in> set (inspectionsTable s). n_vehicle_id n \<in> v_id ` set (vehiclesTable s)
          \<and> n_inspector_id n \<in> i_id ` set (inspectorsTable s)"
    by (auto simp: references_ok_def list_all_iff)
  ultimately show ?thesis
    by (simp add: inspections_joined_def)
qed

lemma joined_rows:
  "(n, v, i) \<in> set (inspections_joined s)
   \<Longrightarrow> v \<in> set (vehiclesTable s) \<and> v_id v = n_vehicle_id n
       \<and> i \<in> set (inspectorsTable s) \<and> i_id i = n_inspector_id n"
  by (auto simp: inspections_joined_def)

lemma map_insort_key:
  "map f (insort_key (\<lambda>x. k (f x)) x xs) = insort_key k (f x) (map f xs)"
  by (induction xs) auto

lemma map_sort_key:
  "map f (sort_key (\<lambda>x. k (f x)) xs) = sort_key k (map f xs)"
  by (induction xs) (auto simp: map_insort_key)

lemma inspection_of_with_details: "inspection_of (with_details s (n, v, i)) = n"
  by (simp add: inspection_of_def with_details_def)

lemma recent_core:
  assumes "references_ok s"
  shows "map inspection_of (recent_inspections (getInspectionReport s))
    = take 10 (sort_key (\<lambda>n. - n_created_at n) (inspectionsTable s))"
proof -
  have a: "inspection_of \<circ> with_details s = fst"
    by (auto simp: fun_eq_iff inspection_of_with_details)
  have b: "(\<lambda>(n, v, i). - n_created_at n) = (\<lambda>x. - n_created_at (fst x))"
    by auto
  have "map inspection_of (recent_inspections (getInspectionReport s))
    = take 10 (map fst (sort_key (\<lambda>x. - n_created_at (fst x)) (inspections_joined s)))"
    by (simp add: getInspectionReport_def Let_def take_map a b)
  also have "map fst (sort_key (\<lambda>x. - n_created_at (fst x)) (inspections_joined s))
    = sort_key (\<lambda>n. - n_created_at n) (map fst (inspections_joined s))"
    by (rule map_sort_key)
  finally show ?thesis
    by (simp add: joined_fst [OF assms])
qed

lemma sorted_take_drop:
  assumes "sorted (map k xs)"
  shows "\<forall>a \<in> set (take m xs). \<forall>b \<in> set (drop m xs). k a \<le> k b"
proof -
  have "sorted (map k (take m xs) @ map k (drop m xs))"
    using assms by (simp flip: map_append)
  then show ?thesis
    by (auto simp: sorted_append)
qed

lemma report_of_consistent_tables:
  assumes "references_ok s"
  shows "total_inspections (getInspectionReport s) = int (length (inspectionsTable s))
      \<and> completed_inspections (getInspectionReport s) = int (length (filter n_completed (inspectionsTable s)))
      \<and> pending_inspections (getInspectionReport s) = total_inspections (getInspectionReport s) - completed_inspections (getInspectionReport s)
      \<and> 0 \<le> pending_inspections (getInspectionReport s)
      \<and> length (recent_inspections (getInspectionReport s)) = min 10 (length (inspectionsTable s))
      \<and> sorted_wrt (\<lambda>a b. d_created_at b \<le> d_created_at a) (recent_inspections (getInspectionReport s))
      \<and> (\<exists>rest. mset (map inspection_of (recent_inspections (getInspectionReport s))) + mset rest
                  = mset (inspectionsTable s)
             \<and> (\<forall>a \<in> set (recent_inspections (getInspectionReport s)). \<forall>b \<in> set rest.
                   n_created_at b \<le> d_created_at a))
      \<and> (\<forall>d \<in> set (recent_inspections (getInspectionReport s)).
             d_vehicle d \<in> set (vehiclesTable s) \<and> v_id (d_vehicle d) = d_vehicle_id d
             \<and> d_inspector d \<in> set (inspectorsTable s)
             \<and> i_id (d_inspector d) = d_inspector_id d
             \<and> d_items d
                 = filter (\<lambda>t. t_inspection_id t = d_id d) (inspectionItemsTable s))"
proof -
  let ?R = "getInspectionReport s"
  let ?k = "\<lambda>n. - n_created_at n"
  let ?sorted = "sort_key ?k (inspectionsTable s)"
  have core: "map inspection_of (recent_inspections ?R) = take 10 ?sorted"
    by (rule recent_core [OF assms])
  have created: "d_created_at d = n_created_at (inspection_of d)" for d
    by (simp add: inspection_of_def)
  have total: "total_inspections ?R = int (length (inspectionsTable s))"
    by (simp add: getInspectionReport_def Let_def)
  have completed:
    "completed_inspections ?R = int (length (filter n_completed (inspectionsTable s)))"
    by (simp add: getInspectionReport_def Let_def)
  have pending: "pending_inspections ?R = total_inspections ?R - completed_inspections ?R"
    by (simp add: getInspectionReport_def Let_def)
  have "length (filter n_completed (inspectionsTable s)) \<le> length (inspectionsTable s)"
    by (rule length_filter_le)
  with total completed pending have nonneg: "0 \<le> pending_inspections ?R"
    by simp
  have "length (map inspection_of (recent_inspections ?R)) = length (take 10 ?sorted)"
    by (simp only: core)
  then have len: "length (recent_inspections ?R) = min 10 (length (inspectionsTable s))"
    by (simp add: min.commute)
  have srt: "sorted (map ?k ?sorted)"
    by (rule sorted_sort_key)
  then have "sorted (map ?k (take 10 ?sorted))"
    by (simp add: sorted_wrt_take flip: take_map)
  then have "sorted (map ?k (map inspection_of (recent_inspections ?R)))"
    by (simp only: core)
  then have ordered:
    "sorted_wrt (\<lambda>a b. d_created_at b \<le> d_created_at a) (recent_inspections ?R)"
    by (simp add: sorted_map created)
  have "mset (take 10 ?sorted) + mset (drop 10 ?sorted) = mset (inspectionsTable s)"
    by (simp flip: mset_append)
  moreover have "\<forall>a \<in> set (take 10 ?sorted). \<forall>b \<in> set (drop 10 ?sorted). ?k a \<le> ?k b"
    by (rule sorted_take_drop [OF srt])
  then have "\<forall>a \<in> set (recent_inspections ?R). \<forall>b \<in> set (drop 10 ?sorted).
      n_created_at b \<le> d_created_at a"
    using core by (metis (no_types, lifting) created image_eqI list.set_map neg_le_iff_le)
  ultimately have top: "\<exists>rest. mset (map inspection_of (recent_inspections ?R)) + mset rest
                  = mset (inspectionsTable s)
             \<and> (\<forall>a \<in> set (recent_inspections ?R). \<forall>b \<in> set rest.
                   n_created_at b \<le> d_created_at a)"
    unfolding core by blast
  have enriched: "\<forall>d \<in> set (recent_inspections ?R).
             d_vehicle d \<in> set (vehiclesTable s) \<and> v_id (d_vehicle d) = d_vehicle_id d
             \<and> d_inspector d \<in> set (inspectorsTable s)
             \<and> i_id (d_inspector d) = d_inspector_id d
             \<and> d_items d
                 = filter (\<lambda>t. t_inspection_id t = d_id d) (inspectionItemsTable s)"
  proof
    fix d
    assume "d \<in> set (recent_inspections ?R)"
    then obtain n v i where d: "d = with_details s (n, v, i)"
      and "(n, v, i) \<in> set (take 10 (sort_key (\<lambda>(n, v, i). - n_created_at n)
                                       (inspections_joined s)))"
      by (auto simp: getInspectionReport_def Let_def)
    then have "(n, v, i) \<in> set (inspections_joined s)"
      by (auto dest: in_set_takeD)
    from joined_rows [OF this] show "d_vehicle d \<in> set (vehiclesTable s) \<and> v_id (d_vehicle d) = d_vehicle_id d
             \<and> d_inspector d \<in> set (inspectorsTable s)
             \<and> i_id (d_inspector d) = d_inspector_id d
             \<and> d_items d
                 = filter (\<lambda>t. t_inspection_id t = d_id d) (inspectionItemsTable s)"
      by (simp add: d with_details_def)
  qed
  from total completed pending nonneg len ordered top enriched show ?thesis
    by (intro conjI)
qed

lemma report_of_no_inspections:
  assumes "inspectionsTable e = []"
  shows "getInspectionReport e
    = \<lparr>total_inspections = 0, completed_inspections = 0, pending_inspections = 0,
       recent_inspections = []\<rparr>"
  using assms by (simp add: getInspectionReport_def inspections_joined_def)

text \<open>
  C8. Where the tables are consistent (unique vehicle and inspector ids, every
  inspection referring to rows that exist, as the primary and foreign keys of the
  storage keep them), the report gives the number of inspection rows as
  \<open>total_inspections\<close>, the number of completed ones as \<open>completed_inspections\<close>, their
  difference as \<open>pending_inspections\<close>, and as \<open>recent_inspections\<close> at most ten
  inspections, exactly ten when there are as many, by descending \<open>created_at\<close>, such
  that no inspection left out was created later than one that is listed; each comes
  with a vehicle row and an inspector row of its ids and with the items of its id. With
  no inspection at all the report is three zeros and the empty list.
\<close>

theorem report_counts_and_recent:
  "(references_ok s \<longrightarrow>
      total_inspections (getInspectionReport s) = int (length (inspectionsTable s))
      \<and> completed_inspections (getInspectionReport s) = int (length (filter n_completed (inspectionsTable s)))
      \<and> pending_inspections (getInspectionReport s) = total_inspections (getInspectionReport s) - completed_inspections (getInspectionReport s)
      \<and> 0 \<le> pending_inspections (getInspectionReport s)
      \<and> length (recent_inspections (getInspectionReport s)) = min 10 (length (inspectionsTable s))
      \<and> sorted_wrt (\<lambda>a b. d_created_at b \<le> d_created_at a) (recent_inspections (getInspectionReport s))
      \<and> (\<exists>rest. mset (map inspection_of (recent_inspections (getInspectionReport s))) + mset rest
                  = mset (inspectionsTable s)
             \<and> (\<forall>a \<in> set (recent_inspections (getInspectionReport s)). \<forall>b \<in> set rest.
                   n_created_at b \<le> d_created_at a))
      \<and> (\<forall>d \<in> set (recent_inspections (getInspectionReport s)).
             d_vehicle d \<in> set (vehiclesTable s) \<and> v_id (d_vehicle d) = d_vehicle_id d
             \<and> d_inspector d \<in> set (inspectorsTable s)
             \<and> i_id (d_inspector d) = d_inspector_id d
             \<and> d_items d
                 = filter (\<lambda>t. t_inspection_id t = d_id d) (inspectionItemsTable s)))
   \<and> (inspectionsTable e = []
      \<longrightarrow> getInspectionReport e
          = \<lparr>total_inspections = 0, completed_inspections = 0, pending_inspections = 0,
             recent_inspections = []\<rparr>)"
  by (rule conjI; rule impI; erule report_of_consistent_tables report_of_no_inspections)

text \<open>
  The report of the example database, and of the same database without inspections.
\<close>

theorem report_counts_and_recent_witness:
  "references_ok depot
   \<and> total_inspections (getInspectionReport depot) = 2
   \<and> completed_inspections (getInspectionReport depot) = 1
   \<and> pending_inspections (getInspectionReport depot) = 1
   \<and> map inspection_of (recent_inspections (getInspectionReport depot)) = [visit2, visit1]
   \<and> map d_vehicle (recent_inspections (getInspectionReport depot)) = [car2, car1]
   \<and> map d_inspector (recent_inspections (getInspectionReport depot)) = [john, john]
   \<and> map d_items (recent_inspections (getInspectionReport depot)) = [[], [brakes]]
   \<and> length (recent_inspections (getInspectionReport depot))
       = min 10 (length (inspectionsTable depot))
   \<and> sorted_wrt (\<lambda>a b. d_created_at b \<le> d_created_at a)
       (recent_inspections (getInspectionReport depot))
   \<and> inspectionsTable (depot\<lparr>inspectionsTable := []\<rparr>) = []
   \<and> getInspectionReport (depot\<lparr>inspectionsTable := []\<rparr>)
       = \<lparr>total_inspections = 0, completed_inspections = 0, pending_inspections = 0,
          recent_inspections = []\<rparr>"
proof -
  have ok: "references_ok depot"
    by (simp add: references_ok_def example_defs)
  have ev: "total_inspections (getInspectionReport depot) = 2"
    "completed_inspections (getInspectionReport depot) = 1"
    "pending_inspections (getInspectionReport depot) = 1"
    "map inspection_of (recent_inspections (getInspectionReport depot)) = [visit2, visit1]"
    "map d_vehicle (recent_inspections (getInspectionReport depot)) = [car2, car1]"
    "map d_inspector (recent_inspections (getInspectionReport depot)) = [john, john]"
    "map d_items (recent_inspections (getInspectionReport depot)) = [[], [brakes]]"
    by (simp_all add: getInspectionReport_def inspections_joined_def with_details_def
        inspection_of_def Let_def example_defs)
  have e: "inspectionsTable (depot\<lparr>inspectionsTable := []\<rparr>) = []"
    by simp
  note t = report_counts_and_recent [where s = depot
      and e = "depot\<lparr>inspectionsTable := []\<rparr>"]
  from t ok e ev show ?thesis
    by blast
qed

section \<open>The handlers keep the tables consistent\<close>

text \<open>
  The report was described for consistent tables. Every handler that writes takes a
  consistent database to a consistent one, whether it succeeds or fails, and the empty
  database is consistent: the hypothesis holds in every state the handlers can reach.
\<close>

lemma consistent_members:
  "consistent s =
     (distinct (map v_id (vehiclesTable s)) \<and> distinct (map i_id (inspectorsTable s))
      \<and> (\<forall>n \<in> set (inspectionsTable s). n_vehicle_id n \<in> v_id ` set (vehiclesTable s))
      \<and> (\<forall>n \<in> set (inspectionsTable s). n_inspector_id n \<in> i_id ` set (inspectorsTable s))
      \<and> (\<forall>v \<in> set (vehiclesTable s). v_id v < vehicles_seq s)
      \<and> (\<forall>i \<in> set (inspectorsTable s). i_id i < inspectors_seq s))"
  by (auto simp: consistent_def references_ok_def ids_below_seq_def list_all_iff)

lemma consistent_keys:
  "consistent s =
     (distinct (map v_id (vehiclesTable s)) \<and> distinct (map i_id (inspectorsTable s))
      \<and> set (map n_vehicle_id (inspectionsTable s)) \<subseteq> set (map v_id (vehiclesTable s))
      \<and> set (map n_inspector_id (inspectionsTable s)) \<subseteq> set (map i_id (inspectorsTable s))
      \<and> (\<forall>k \<in> set (map v_id (vehiclesTable s)). k < vehicles_seq s)
      \<and> (\<forall>k \<in> set (map i_id (inspectorsTable s)). k < inspectors_seq s))"
  by (auto simp: consistent_def references_ok_def ids_below_seq_def list_all_iff)

lemma consistent_same_keys:
  assumes "map v_id (vehiclesTable s') = map v_id (vehiclesTable s)"
    and "map i_id (inspectorsTable s') = map i_id (inspectorsTable s)"
    and "map n_vehicle_id (inspectionsTable s') = map n_vehicle_id (inspectionsTable s)"
    and "map n_inspector_id (inspectionsTable s') = map n_inspector_id (inspectionsTable s)"
    and "vehicles_seq s' = vehicles_seq s" and "inspectors_seq s' = inspectors_seq s"
  shows "consistent s' = consistent s"
  unfolding consistent_keys assms ..

lemma vehicle_ids_updated:
  "map v_id (map (\<lambda>r. if v_id r = k then vehicle_updateData now input r else r) xs) = map v_id xs"
  by (induction xs) (simp_all add: vehicle_updateData_def)

lemma inspector_ids_updated:
  "map i_id (map (\<lambda>r. if i_id r = k then inspector_updateData now input r else r) xs) = map i_id xs"
  by (induction xs) (simp_all add: inspector_updateData_def)

lemma inspection_refs_updated:
  "map n_vehicle_id (map (\<lambda>r. if n_id r = k then inspection_updateData now input r else r) xs)
     = map n_vehicle_id xs"
  "map n_inspector_id (map (\<lambda>r. if n_id r = k then inspection_updateData now input r else r) xs)
     = map n_inspector_id xs"
  by (induction xs) (simp_all add: inspection_updateData_def)

lemma updateVehicle_consistent:
  assumes c: "consistent s"
  shows "consistent (snd (updateVehicle uq now input s))"
proof -
  let ?s' = "s\<lparr>vehiclesTable := map (\<lambda>r. if v_id r = uv_id input
              then vehicle_updateData now input r else r) (vehiclesTable s)\<rparr>"
  have "snd (updateVehicle uq now input s) = s \<or> snd (updateVehicle uq now input s) = ?s'"
    by (simp add: updateVehicle_def update_vehicles_def Let_def
        split: option.splits list.splits)
  moreover have "consistent ?s' = consistent s"
    by (rule consistent_same_keys) (simp_all add: vehicle_ids_updated del: map_map)
  ultimately show ?thesis using c by auto
qed

lemma updateInspector_consistent:
  assumes c: "consistent s"
  shows "consistent (snd (updateInspector uq now input s))"
proof -
  let ?s' = "s\<lparr>inspectorsTable := map (\<lambda>r. if i_id r = up_id input
              then inspector_updateData now input r else r) (inspectorsTable s)\<rparr>"
  have "snd (updateInspector uq now input s) = s \<or> snd (updateInspector uq now input s) = ?s'"
    by (simp add: updateInspector_def update_inspectors_def Let_def
        split: option.splits list.splits)
  moreover have "consistent ?s' = consistent s"
    by (rule consistent_same_keys) (simp_all add: inspector_ids_updated del: map_map)
  ultimately show ?thesis using c by auto
qed

lemma updateInspection_consistent:
  assumes c: "consistent s"
  shows "consistent (snd (updateInspection now input s))"
proof -
  let ?s' = "s\<lparr>inspectionsTable := map (\<lambda>r. if n_id r = ui_id input
              then inspection_updateData now input r else r) (inspectionsTable s)\<rparr>"
  have "snd (updateInspection now input s) = ?s'"
    by (simp add: updateInspection_def update_inspections_def split: list.splits)
  moreover have "consistent ?s' = consistent s"
    by (rule consistent_same_keys) (simp_all add: inspection_refs_updated del: map_map)
  ultimately show ?thesis using c by simp
qed

lemma createInspection_consistent:
  assumes c: "consistent s"
  shows "consistent (snd (createInspection now input s))"
proof (cases "ci_vehicle_id input \<in> v_id ` set (vehiclesTable s)
              \<and> ci_inspector_id input \<in> i_id ` set (inspectorsTable s)")
  case True
  then have "filter (\<lambda>r. v_id r = ci_vehicle_id input) (vehiclesTable s) \<noteq> []"
    "filter (\<lambda>r. i_id r = ci_inspector_id input) (inspectorsTable s) \<noteq> []"
    by (simp_all add: key_filter_nonempty)
  then have "snd (createInspection now input s)
    = s\<lparr>inspectionsTable := inspectionsTable s @
          [\<lparr>n_id = inspections_seq s, n_vehicle_id = ci_vehicle_id input,
            n_inspector_id = ci_inspector_id input,
            n_inspection_date = ci_inspection_date input,
            n_completed = False, n_notes = or_null (ci_notes input),
            n_created_at = now, n_updated_at = now\<rparr>],
         inspections_seq := inspections_seq s + 1\<rparr>"
    by (simp add: createInspection_def insert_inspection_def Let_def)
  with c True show ?thesis
    by (simp add: consistent_keys)
next
  case False
  then have "filter (\<lambda>r. v_id r = ci_vehicle_id input) (vehiclesTable s) = []
    \<or> filter (\<lambda>r. i_id r = ci_inspector_id input) (inspectorsTable s) = []"
    by (auto simp: key_filter_empty)
  then have "snd (createInspection now input s) = s"
    by (auto simp: createInspection_def Let_def)
  with c show ?thesis by simp
qed

lemma createVehicle_consistent:
  "consistent s \<Longrightarrow> consistent (snd (createVehicle uq now input s))"
  by (auto simp: consistent_members createVehicle_def insert_vehicle_def Let_def
      split: option.splits)

lemma deleteVehicle_consistent:
  "consistent s \<Longrightarrow> consistent (snd (deleteVehicle k s))"
  by (auto simp: consistent_members deleteVehicle_def delete_vehicles_def Let_def
      distinct_map_filter)

lemma createInspector_consistent:
  "consistent s \<Longrightarrow> consistent (snd (createInspector uq now input s))"
  by (auto simp: consistent_members createInspector_def insert_inspector_def Let_def)

lemma deleteInspector_consistent:
  "consistent s \<Longrightarrow> consistent (snd (deleteInspector k s))"
  by (fastforce simp: consistent_members deleteInspector_def Let_def distinct_map_filter
      filter_empty_conv)

lemma createInspectionItems_consistent:
  "consistent s \<Longrightarrow> consistent (snd (createInspectionItems now input s))"
  by (auto simp: consistent_members createInspectionItems_def insert_inspection_items_def
      Let_def)

lemma updateInspectionItem_consistent:
  "consistent s \<Longrightarrow> consistent (snd (updateInspectionItem now input s))"
  by (auto simp: consistent_members updateInspectionItem_def update_inspection_items_def
      split: list.splits)

lemma empty_db_consistent: "consistent empty_db"
  by (simp add: consistent_def references_ok_def ids_below_seq_def empty_db_def)

lemma consistent_references_ok: "consistent s \<Longrightarrow> references_ok s"
  by (simp add: consistent_def)

end
